theory Spec2Isabelle
  imports Main
begin

section \<open>Values shared by the client and the workers\<close>

text \<open>
  A decoded JSON document. Numbers are the integers the program exchanges (millisecond
  timestamps, status codes); an object is its list of members in document order.
\<close>

datatype json =
    JNull
  | JBool bool
  | JNum int
  | JStr string
  | JArr "json list"
  | JObj "(string \<times> json) list"

text \<open>
  Reading a member \<open>v.k\<close> of a value that is not \<open>null\<close>: \<open>None\<close> is \<open>undefined\<close>.
  Only objects carry the members the program reads (\<open>expires\<close>, \<open>sessionId\<close>).
\<close>

fun get_member :: "json \<Rightarrow> string \<Rightarrow> json option" where
  "get_member (JObj kvs) k = map_of kvs k"
| "get_member _ k = None"

text \<open>
  The errors the client raises. Four are made by the source with \<open>new Error\<close>:
  \<open>CountryNotSupported\<close> and \<open>NoHealthyWorkers\<close> in \<open>getBestWorker\<close>, \<open>InvalidResponseFormat\<close> and
  \<open>HttpStatus\<close> (status code and body) in \<open>establishConnection\<close>. \<open>RequestError\<close> is the error
  of a failed handshake request, passed on by \<open>req.on('error', reject)\<close>, or what
  \<open>https.get\<close> throws in \<open>healthCheck\<close>. The others come from the
  runtime: reading \<open>map\<close> of an undefined \<open>workers\<close>, reading a member of a \<open>null\<close>
  acknowledgement, and a failing random source.
\<close>

datatype error =
    CountryNotSupported string
  | NoHealthyWorkers string
  | TypeError_workers_undefined
  | TypeError_null_member
  | InvalidResponseFormat
  | HttpStatus nat string
  | RequestError string
  | CryptoFailure

section \<open>Configuration\<close>

record region =
  name :: string
  workers :: "string list"

record auth =
  tokenDuration :: int
  refreshBuffer :: int

record health =
  checkInterval :: int
  timeout :: int

record config =
  regions :: "string \<rightharpoonup> region"
  auth :: auth
  health :: health

text \<open>
  \<open>config.regions\<close> is a plain object, so \<open>regions[country]\<close> finds the region stored under
  that key, and otherwise what every object inherits from \<open>Object.prototype\<close>: a function
  (or, for \<open>__proto__\<close>, the prototype itself), which is truthy and has no \<open>workers\<close>.
\<close>

definition Object_prototype_keys :: "string list" where
  "Object_prototype_keys =
     [''constructor'', ''__defineGetter__'', ''__defineSetter__'', ''hasOwnProperty'',
      ''__lookupGetter__'', ''__lookupSetter__'', ''isPrototypeOf'',
      ''propertyIsEnumerable'', ''toString'', ''valueOf'', ''__proto__'',
      ''toLocaleString'']"

datatype 'a property = Own 'a | Inherited | Absent

definition get_property :: "(string \<rightharpoonup> 'a) \<Rightarrow> string \<Rightarrow> 'a property" where
  "get_property obj k =
     (case obj k of
        Some v \<Rightarrow> Own v
      | None \<Rightarrow> if k \<in> set Object_prototype_keys then Inherited else Absent)"

section \<open>Probe results\<close>

datatype probe_status = Healthy | Error | Timeout | Invalid

record probe_result =
  url :: string
  status :: probe_status
  latency :: int
  data :: "json option"

section \<open>Text encodings\<close>

text \<open>
  Strings are sequences of 8-bit characters; a character stands for the byte with its
  code, which is exact for the ASCII text the program builds its tokens from.
\<close>

definition digit_char :: "int \<Rightarrow> char" where
  "digit_char d = char_of (48 + d)"

function show_digits :: "int \<Rightarrow> string" where
  "show_digits n =
     (if n < 10 then [digit_char n] else show_digits (n div 10) @ [digit_char (n mod 10)])"
  by pat_completeness auto
termination
  by (relation "measure nat") auto

declare show_digits.simps [simp del]

definition show_int :: "int \<Rightarrow> string" where
  "show_int i = (if i < 0 then CHR ''-'' # show_digits (- i) else show_digits i)"

definition hex_char :: "nat \<Rightarrow> char" where
  "hex_char d = (if d < 10 then char_of (48 + d) else char_of (87 + d))"

text \<open>\<open>JSON.stringify\<close> of a string: the quoted text with the escapes of the standard.\<close>

definition dq :: char where
  "dq = CHR 0x22"

definition json_escape_char :: "char \<Rightarrow> string" where
  "json_escape_char ch =
     (let n = (of_char ch :: nat) in
      if ch = dq then [CHR 0x5C, dq]
      else if ch = CHR 0x5C then [CHR 0x5C, CHR 0x5C]
      else if n = 8 then [CHR 0x5C, CHR ''b'']
      else if n = 12 then [CHR 0x5C, CHR ''f'']
      else if n = 10 then [CHR 0x5C, CHR ''n'']
      else if n = 13 then [CHR 0x5C, CHR ''r'']
      else if n = 9 then [CHR 0x5C, CHR ''t'']
      else if n < 32 then [CHR 0x5C, CHR ''u'', CHR ''0'', CHR ''0'', hex_char (n div 16), hex_char (n mod 16)]
      else [ch])"

definition json_quote :: "string \<Rightarrow> string" where
  "json_quote s = dq # concat (map json_escape_char s) @ [dq]"

text \<open>
  Base64 without padding over a given 64-character alphabet:
  \<open>Buffer.from(text).toString('base64url')\<close> and \<open>digest('base64url')\<close> use the URL-safe one.
\<close>

definition base64_alphabet :: string where
  "base64_alphabet = ''ABCDEFGHIJKLMNOPQRSTUVWXYZabcdefghijklmnopqrstuvwxyz0123456789+/''"

definition base64url_alphabet :: string where
  "base64url_alphabet = ''ABCDEFGHIJKLMNOPQRSTUVWXYZabcdefghijklmnopqrstuvwxyz0123456789-_''"

fun encode_groups :: "string \<Rightarrow> nat list \<Rightarrow> string" where
  "encode_groups al (a # b # c # rest) =
     al ! (a div 4) # al ! ((a mod 4) * 16 + b div 16) # al ! ((b mod 16) * 4 + c div 64) #
     al ! (c mod 64) # encode_groups al rest"
| "encode_groups al [a, b] =
     [al ! (a div 4), al ! ((a mod 4) * 16 + b div 16), al ! ((b mod 16) * 4)]"
| "encode_groups al [a] = [al ! (a div 4), al ! ((a mod 4) * 16)]"
| "encode_groups al [] = []"

definition to_base64url :: "nat list \<Rightarrow> string" where
  "to_base64url bytes = encode_groups base64url_alphabet bytes"

definition bytes_of :: "string \<Rightarrow> nat list" where
  "bytes_of s = map of_char s"

text \<open>
  \<open>atob\<close>: the forgiving Base64 decoder of the web platform. It drops ASCII whitespace,
  drops one or two trailing \<open>=\<close> when the length is a multiple of four, and throws (here
  \<open>None\<close>) when the remaining length is 1 modulo 4 or a character is outside the standard
  alphabet \<open>A-Z a-z 0-9 + /\<close>.
\<close>

fun index_of :: "'a \<Rightarrow> 'a list \<Rightarrow> nat option" where
  "index_of x [] = None"
| "index_of x (y # ys) = (if x = y then Some 0 else map_option Suc (index_of x ys))"

definition is_ascii_whitespace :: "char \<Rightarrow> bool" where
  "is_ascii_whitespace ch = ((of_char ch :: nat) \<in> {9, 10, 12, 13, 32})"

definition strip_padding :: "string \<Rightarrow> string" where
  "strip_padding d =
     (if d \<noteq> [] \<and> last d = CHR ''=''
      then (let d' = butlast d in if d' \<noteq> [] \<and> last d' = CHR ''='' then butlast d' else d')
      else d)"

fun decode_groups :: "nat list \<Rightarrow> nat list" where
  "decode_groups (a # b # c # d # rest) =
     (a * 4 + b div 16) # ((b mod 16) * 16 + c div 4) # ((c mod 4) * 64 + d) # decode_groups rest"
| "decode_groups [a, b, c] = [a * 4 + b div 16, (b mod 16) * 16 + c div 4]"
| "decode_groups [a, b] = [a * 4 + b div 16]"
| "decode_groups _ = []"

definition atob :: "string \<Rightarrow> string option" where
  "atob input =
     (let d1 = filter (\<lambda>ch. \<not> is_ascii_whitespace ch) input;
          d2 = (if length d1 mod 4 = 0 then strip_padding d1 else d1)
      in if length d2 mod 4 = 1 then None
         else (case those (map (\<lambda>ch. index_of ch base64_alphabet) d2) of
                 None \<Rightarrow> None
               | Some sextets \<Rightarrow> Some (map char_of (decode_groups sextets))))"

text \<open>\<open>String.prototype.split\<close> on a one-character separator.\<close>

fun split_on :: "char \<Rightarrow> string \<Rightarrow> string list" where
  "split_on sep [] = [[]]"
| "split_on sep (x # xs) =
     (if x = sep then [] # split_on sep xs
      else (case split_on sep xs of p # ps \<Rightarrow> (x # p) # ps | [] \<Rightarrow> [[x]]))"

section \<open>Requests and promises\<close>

text \<open>
  What happens to the request of one \<open>healthCheck\<close> call, in the order the callbacks see
  it: the timeout callback runs first; or the response callback runs first, the given
  milliseconds after the start, with a status code and a body that ends or never does; or
  the request's error callback runs first; or \<open>https.get\<close> itself throws (an address it
  cannot request).
\<close>

datatype body = Complete string | NeverEnds

datatype request_outcome =
    TimerFirst
  | Response int nat body
  | ConnectionError int
  | RequestThrows string

datatype 'a promise = Resolved 'a | Rejected error | Pending

section \<open>Session tokens (client)\<close>

record token_payload =
  country :: string
  workerId :: string
  sessionId :: string
  issued :: int
  expires :: int

record session_info =
  token :: string
  payload :: token_payload
  secret :: string

text \<open>\<open>JSON.stringify(payload)\<close>: the members in the order of the object literal.\<close>

definition json_member :: "string \<Rightarrow> string \<Rightarrow> string" where
  "json_member k v = json_quote k @ CHR '':'' # v"

definition stringify_payload :: "token_payload \<Rightarrow> string" where
  "stringify_payload p =
     CHR ''{'' # json_member ''country'' (json_quote (country p)) @
     CHR '','' # json_member ''workerId'' (json_quote (workerId p)) @
     CHR '','' # json_member ''sessionId'' (json_quote (sessionId p)) @
     CHR '','' # json_member ''issued'' (show_int (issued p)) @
     CHR '','' # json_member ''expires'' (show_int (expires p)) @ ''}''"

definition stringify_header :: string where
  "stringify_header =
     CHR ''{'' # json_member ''alg'' (json_quote ''HS256'') @
     CHR '','' # json_member ''typ'' (json_quote ''JWT'') @ ''}''"

text \<open>
  What one run of the client reads from outside: what happens to the request of each
  health check, the values of \<open>crypto\<close> (\<open>randomUUID\<close> is \<open>None\<close> when it throws), the readings of
  \<open>Date.now()\<close> at the places that take one, the answer to the handshake request, and
  \<open>JSON.parse\<close> (\<open>None\<close> when it throws).
\<close>

datatype http_outcome =
    HttpResponse nat string
  | HttpError string

record env =
  probe :: "nat \<Rightarrow> string \<Rightarrow> request_outcome"
  randomUUID :: "string option"
  randomBytes_hex :: string
  hmac_sha256 :: "string \<Rightarrow> string \<Rightarrow> nat list"
  now_issued :: int
  now_expires :: int
  now_connected :: int
  now_schedule :: int
  handshake :: "string \<Rightarrow> string \<Rightarrow> http_outcome"
  JSON_parse :: "string \<Rightarrow> json option"

definition generateSessionToken :: "env \<Rightarrow> config \<Rightarrow> string \<Rightarrow> string \<Rightarrow> error + session_info" where
  "generateSessionToken e cfg c wid =
     (case randomUUID e of
        None \<Rightarrow> Inl CryptoFailure
      | Some uuid \<Rightarrow>
          let p = \<lparr>country = c, workerId = wid, sessionId = uuid, issued = now_issued e,
                   expires = now_expires e + tokenDuration (auth cfg) * 1000\<rparr>;
              header = to_base64url (bytes_of stringify_header);
              payloadB64 = to_base64url (bytes_of (stringify_payload p));
              sec = randomBytes_hex e;
              signature = to_base64url (hmac_sha256 e sec (header @ CHR ''.'' # payloadB64))
          in Inr \<lparr>token = header @ CHR ''.'' # payloadB64 @ CHR ''.'' # signature,
                   payload = p, secret = sec\<rparr>)"

section \<open>Token validation (workers)\<close>

text \<open>
  \<open>Date.now() > payload.expires\<close>: the right operand is converted to a number, and a
  comparison with \<open>NaN\<close> is false. \<open>undefined\<close> converts to \<open>NaN\<close>, \<open>null\<close> to 0, a boolean to
  0 or 1; the conversion of strings, arrays and objects is a parameter (\<open>None\<close> is \<open>NaN\<close>).
\<close>

fun to_number :: "(json \<Rightarrow> int option) \<Rightarrow> json option \<Rightarrow> int option" where
  "to_number conv None = None"
| "to_number conv (Some JNull) = Some 0"
| "to_number conv (Some (JBool b)) = Some (if b then 1 else 0)"
| "to_number conv (Some (JNum n)) = Some n"
| "to_number conv (Some v) = conv v"

definition js_gt :: "(json \<Rightarrow> int option) \<Rightarrow> int \<Rightarrow> json option \<Rightarrow> bool" where
  "js_gt conv n v = (case to_number conv v of None \<Rightarrow> False | Some m \<Rightarrow> n > m)"

text \<open>
  \<open>validateToken\<close>, with the decoder of the payload segment as a parameter: the two
  workers differ only there. \<open>None\<close> is the \<open>false\<close> every failing path returns; an
  exception inside the \<open>try\<close> block (the decoder, \<open>JSON.parse\<close>, a member of \<open>null\<close>) ends in
  the same \<open>false\<close>.
\<close>

definition validateToken_with ::
  "(string \<Rightarrow> string option) \<Rightarrow> (string \<Rightarrow> json option) \<Rightarrow> (json \<Rightarrow> int option) \<Rightarrow>
   int \<Rightarrow> string \<Rightarrow> string \<Rightarrow> json option" where
  "validateToken_with decode parse conv now tok sid =
     (if tok = [] then None
      else let parts = split_on CHR ''.'' tok in
        if length parts \<noteq> 3 then None
        else (case decode (parts ! 1) of
                None \<Rightarrow> None
              | Some text \<Rightarrow>
                  (case parse text of
                     None \<Rightarrow> None
                   | Some p \<Rightarrow>
                       if p = JNull then None
                       else if js_gt conv now (get_member p ''expires'') then None
                       else if get_member p ''sessionId'' \<noteq> Some (JStr sid) then None
                       else Some p)))"

text \<open>The Deno worker decodes with \<open>atob\<close>.\<close>

definition validateToken ::
  "(string \<Rightarrow> json option) \<Rightarrow> (json \<Rightarrow> int option) \<Rightarrow> int \<Rightarrow> string \<Rightarrow> string \<Rightarrow> json option" where
  "validateToken parse conv now tok sid = validateToken_with atob parse conv now tok sid"

text \<open>
  The Express worker decodes with \<open>Buffer.from(segment, "base64").toString("utf-8")\<close>, which
  never throws; the decoder is a parameter.
\<close>

definition validateToken_express ::
  "(string \<Rightarrow> string) \<Rightarrow> (string \<Rightarrow> json option) \<Rightarrow> (json \<Rightarrow> int option) \<Rightarrow>
   int \<Rightarrow> string \<Rightarrow> string \<Rightarrow> json option" where
  "validateToken_express buffer_decode parse conv now tok sid =
     validateToken_with (\<lambda>s. Some (buffer_decode s)) parse conv now tok sid"

section \<open>Health probe\<close>

definition healthCheck ::
  "(string \<Rightarrow> json option) \<Rightarrow> string \<Rightarrow> int \<Rightarrow> request_outcome \<Rightarrow> probe_result promise" where
  "healthCheck parse workerUrl timeout_ms outcome =
     (case outcome of
        RequestThrows msg \<Rightarrow> Rejected (RequestError msg)
      | TimerFirst \<Rightarrow>
          Resolved \<lparr>url = workerUrl, status = Timeout, latency = timeout_ms, data = None\<rparr>
      | Response elapsed statusCode b \<Rightarrow>
          (case b of
             NeverEnds \<Rightarrow> Pending
           | Complete text \<Rightarrow>
               (case parse text of
                  Some result \<Rightarrow>
                    Resolved \<lparr>url = workerUrl,
                              status = (if statusCode = 200 then Healthy else Error),
                              latency = elapsed, data = Some result\<rparr>
                | None \<Rightarrow>
                    Resolved \<lparr>url = workerUrl, status = Invalid, latency = elapsed, data = None\<rparr>))
      | ConnectionError elapsed \<Rightarrow>
          Resolved \<lparr>url = workerUrl, status = Error, latency = elapsed, data = None\<rparr>)"

section \<open>Endpoint selection\<close>

text \<open>
  \<open>Array.prototype.sort\<close> with a comparator is stable; it is modelled as insertion sort,
  where an element goes in front of the first one it does not compare greater than.
\<close>

fun sort_insert :: "('a \<Rightarrow> 'a \<Rightarrow> int) \<Rightarrow> 'a \<Rightarrow> 'a list \<Rightarrow> 'a list" where
  "sort_insert cmp x [] = [x]"
| "sort_insert cmp x (y # ys) =
     (if cmp x y \<le> 0 then x # y # ys else y # sort_insert cmp x ys)"

fun array_sort :: "('a \<Rightarrow> 'a \<Rightarrow> int) \<Rightarrow> 'a list \<Rightarrow> 'a list" where
  "array_sort cmp [] = []"
| "array_sort cmp (x # xs) = sort_insert cmp x (array_sort cmp xs)"

text \<open>The HTTP requests the client sends, recorded in the order they are issued.\<close>

datatype request =
    HealthRequest string
  | ConnectRequest string string string

text \<open>
  \<open>Promise.all\<close> over the promises of the \<open>healthCheck\<close> calls: it rejects with the error of
  the first promise that rejects (a \<open>healthCheck\<close> promise rejects only while it is being
  made, so the first in the list), resolves to the list of values when every promise
  resolves, and otherwise never settles.
\<close>

fun promise_all :: "'a promise list \<Rightarrow> 'a list promise" where
  "promise_all [] = Resolved []"
| "promise_all (p # ps) =
     (case p of
        Rejected err \<Rightarrow> Rejected err
      | Resolved x \<Rightarrow>
          (case promise_all ps of
             Resolved xs \<Rightarrow> Resolved (x # xs)
           | Rejected err \<Rightarrow> Rejected err
           | Pending \<Rightarrow> Pending)
      | Pending \<Rightarrow>
          (case promise_all ps of
             Rejected err \<Rightarrow> Rejected err
           | Resolved xs \<Rightarrow> Pending
           | Pending \<Rightarrow> Pending))"

text \<open>A call of \<open>https.get\<close> that throws sends no request.\<close>

fun request_sent :: "request_outcome \<Rightarrow> bool" where
  "request_sent (RequestThrows msg) = False"
| "request_sent _ = True"

text \<open>
  \<open>getBestWorker\<close>. The third argument gives, for the position and the address of each
  worker in the region's list, what happens to the request of that \<open>healthCheck\<close> call;
  \<open>healthCheck\<close> runs with its default timeout of 5000 ms. The result is the promise of
  the \<open>async\<close> function (\<open>Resolved\<close> what it returns, \<open>Rejected\<close> what it throws, \<open>Pending\<close> when the
  awaited \<open>Promise.all\<close> never settles), together with the health requests sent.
\<close>

definition getBestWorker ::
  "config \<Rightarrow> (string \<Rightarrow> json option) \<Rightarrow> (nat \<Rightarrow> string \<Rightarrow> request_outcome) \<Rightarrow> string \<Rightarrow>
   probe_result promise \<times> request list" where
  "getBestWorker cfg parse outcome_of c =
     (case get_property (regions cfg) c of
        Absent \<Rightarrow> (Rejected (CountryNotSupported c), [])
      | Inherited \<Rightarrow> (Rejected TypeError_workers_undefined, [])
      | Own r \<Rightarrow>
          let calls = enumerate 0 (workers r);
              sent = map (\<lambda>(i, w). HealthRequest w)
                       (filter (\<lambda>(i, w). request_sent (outcome_of i w)) calls)
          in (case promise_all
                     (map (\<lambda>(i, w). healthCheck parse w 5000 (outcome_of i w)) calls) of
                Rejected err \<Rightarrow> Rejected err
              | Pending \<Rightarrow> Pending
              | Resolved healthChecks \<Rightarrow>
                  let sortedWorkers =
                        array_sort (\<lambda>a b. latency a - latency b)
                          (filter (\<lambda>check. status check = Healthy) healthChecks)
                  in if length sortedWorkers = 0 then Rejected (NoHealthyWorkers c)
                     else Resolved (sortedWorkers ! 0),
              sent))"

section \<open>Connection manager\<close>

record timer =
  armed_at :: int
  delay :: int
  pending :: bool

record session =
  session_country :: string
  worker :: probe_result
  session_id :: string
  connectedAt :: int

text \<open>
  The fields of \<open>PseudoVPNClient\<close> that the session life cycle uses, the timer behind the
  handle \<open>tokenRefreshTimeout\<close> (\<open>clearTimeout\<close> and firing leave the handle in place and
  make the timer no longer pending), and the requests sent so far.
\<close>

record client =
  config :: config
  currentSession :: "session option"
  sessionToken :: "string option"
  tokenExpiry :: "int option"
  tokenRefreshTimeout :: "timer option"
  requests :: "request list"

definition new_client :: "config \<Rightarrow> client" where
  "new_client cfg =
     \<lparr>config = cfg, currentSession = None, sessionToken = None, tokenExpiry = None,
      tokenRefreshTimeout = None, requests = []\<rparr>"

definition timer_pending :: "client \<Rightarrow> bool" where
  "timer_pending st = (case tokenRefreshTimeout st of None \<Rightarrow> False | Some t \<Rightarrow> pending t)"

definition clearTimeout :: "timer option \<Rightarrow> timer option" where
  "clearTimeout h = map_option (\<lambda>t. t\<lparr>pending := False\<rparr>) h"

text \<open>
  \<open>setTimeout(callback, ms)\<close> of Node: a delay above 2147483647 ms, or below 1 ms, is set
  to 1 ms.
\<close>

definition TIMEOUT_MAX :: int where
  "TIMEOUT_MAX = 2147483647"

definition setTimeout :: "int \<Rightarrow> int \<Rightarrow> timer" where
  "setTimeout now ms =
     \<lparr>armed_at = now, delay = (if ms > TIMEOUT_MAX \<or> ms < 1 then 1 else ms), pending = True\<rparr>"

text \<open>
  \<open>scheduleTokenRefresh\<close>, at the reading \<open>now\<close> of \<open>Date.now()\<close>. A \<open>null\<close> expiry counts as 0
  in the subtraction.
\<close>

definition scheduleTokenRefresh :: "int \<Rightarrow> client \<Rightarrow> client" where
  "scheduleTokenRefresh now st =
     (let st1 = st\<lparr>tokenRefreshTimeout := clearTimeout (tokenRefreshTimeout st)\<rparr>;
          refreshTime = (case tokenExpiry st1 of None \<Rightarrow> 0 | Some t \<Rightarrow> t) - now
                        - refreshBuffer (auth (config st1)) * 1000
      in if refreshTime > 0
         then st1\<lparr>tokenRefreshTimeout := Some (setTimeout now refreshTime)\<rparr>
         else st1)"

text \<open>
  The message of an error, where the source writes one (the messages of the runtime's own
  errors are not modelled).
\<close>

definition error_message :: "error \<Rightarrow> string option" where
  "error_message err =
     (case err of
        CountryNotSupported c \<Rightarrow> Some (''Country '' @ c @ '' not supported'')
      | NoHealthyWorkers c \<Rightarrow> Some (''No healthy workers available for '' @ c)
      | InvalidResponseFormat \<Rightarrow> Some ''Invalid response format''
      | HttpStatus statusCode text \<Rightarrow>
          Some (''HTTP '' @ show_int (int statusCode) @ '': '' @ text)
      | _ \<Rightarrow> None)"

text \<open>\<open>establishConnection\<close>, from the outcome of the \<open>POST /connect\<close> request.\<close>

definition establishConnection :: "(string \<Rightarrow> json option) \<Rightarrow> http_outcome \<Rightarrow> error + json" where
  "establishConnection parse outcome =
     (case outcome of
        HttpResponse statusCode text \<Rightarrow>
          if statusCode = 200
          then (case parse text of Some v \<Rightarrow> Inr v | None \<Rightarrow> Inl InvalidResponseFormat)
          else Inl (HttpStatus statusCode text)
      | HttpError msg \<Rightarrow> Inl (RequestError msg))"

text \<open>
  \<open>connect\<close>: the promise of the \<open>async\<close> function (\<open>Resolved\<close> the value returned, \<open>Rejected\<close> the
  error rethrown by the \<open>catch\<close> block, \<open>Pending\<close> when the awaited selection never settles),
  and the client afterwards. Reading \<open>connectionResult.ip\<close> for the log throws when the
  acknowledgement is \<open>null\<close>.
\<close>

definition connect :: "env \<Rightarrow> client \<Rightarrow> string \<Rightarrow> json promise \<times> client" where
  "connect e st c =
     (let (selected, probes) = getBestWorker (config st) (JSON_parse e) (probe e) c;
          st0 = st\<lparr>requests := requests st @ probes\<rparr>
      in case selected of
           Rejected err \<Rightarrow> (Rejected err, st0)
         | Pending \<Rightarrow> (Pending, st0)
         | Resolved w \<Rightarrow>
             (case generateSessionToken e (config st0) c (url w) of
                Inl err \<Rightarrow> (Rejected err, st0)
              | Inr sessionInfo \<Rightarrow>
                  let st1 = st0\<lparr>sessionToken := Some (token sessionInfo),
                                 tokenExpiry := Some (expires (payload sessionInfo))\<rparr>;
                      st2 = st1\<lparr>requests := requests st1 @
                                   [ConnectRequest (url w) (token sessionInfo)
                                      (sessionId (payload sessionInfo))]\<rparr>
                  in case establishConnection (JSON_parse e)
                            (handshake e (url w) (token sessionInfo)) of
                       Inl err \<Rightarrow> (Rejected err, st2)
                     | Inr connectionResult \<Rightarrow>
                         let st3 = st2\<lparr>currentSession :=
                                     Some \<lparr>session_country = c, worker = w,
                                           session_id = sessionId (payload sessionInfo),
                                           connectedAt = now_connected e\<rparr>\<rparr>
                         in if connectionResult = JNull
                            then (Rejected TypeError_null_member, st3)
                            else (Resolved connectionResult,
                                  scheduleTokenRefresh (now_schedule e) st3)))"

text \<open>\<open>refreshToken\<close>: \<open>Inl\<close> is what it throws.\<close>

definition refreshToken :: "env \<Rightarrow> client \<Rightarrow> (error + unit) \<times> client" where
  "refreshToken e st =
     (case currentSession st of
        None \<Rightarrow> (Inr (), st)
      | Some s \<Rightarrow>
          (case generateSessionToken e (config st) (session_country s) (url (worker s)) of
             Inl err \<Rightarrow> (Inl err, st)
           | Inr sessionInfo \<Rightarrow>
               (Inr (),
                scheduleTokenRefresh (now_schedule e)
                  (st\<lparr>sessionToken := Some (token sessionInfo),
                      tokenExpiry := Some (expires (payload sessionInfo))\<rparr>))))"

text \<open>
  The callback that \<open>scheduleTokenRefresh\<close> hands to \<open>setTimeout\<close>, run when the timer
  fires: \<open>e1\<close> is what the refresh reads, \<open>e2\<close> what the reconnection reads. The first
  component is the promise of the callback: \<open>Rejected\<close> with the error that leaves it
  uncaught, \<open>Pending\<close> when the awaited reconnection never settles.
\<close>

definition refresh_callback :: "env \<Rightarrow> env \<Rightarrow> client \<Rightarrow> unit promise \<times> client" where
  "refresh_callback e1 e2 st =
     (let fired = st\<lparr>tokenRefreshTimeout := clearTimeout (tokenRefreshTimeout st)\<rparr>
      in case refreshToken e1 fired of
           (Inr u, st1) \<Rightarrow> (Resolved (), st1)
         | (Inl err, st1) \<Rightarrow>
             (case currentSession st1 of
                None \<Rightarrow> (Resolved (), st1)
              | Some s \<Rightarrow>
                  (case connect e2 st1 (session_country s) of
                     (Rejected err2, st2) \<Rightarrow> (Rejected err2, st2)
                   | (Resolved ack, st2) \<Rightarrow> (Resolved (), st2)
                   | (Pending, st2) \<Rightarrow> (Pending, st2))))"

text \<open>\<open>disconnect\<close>.\<close>

definition disconnect :: "client \<Rightarrow> client" where
  "disconnect st =
     (let st1 = st\<lparr>tokenRefreshTimeout := clearTimeout (tokenRefreshTimeout st)\<rparr>
      in case currentSession st1 of
           None \<Rightarrow> st1
         | Some s \<Rightarrow> st1\<lparr>currentSession := None, sessionToken := None, tokenExpiry := None\<rparr>)"

section \<open>Scenarios\<close>

text \<open>The default configuration written by \<open>loadConfig\<close>.\<close>

definition default_config :: config where
  "default_config =
     \<lparr>regions =
        [''US'' \<mapsto> \<lparr>name = ''United States'',
                   workers = [''https://pseudovpn-us-east.hakzeemirror.workers.dev'',
                              ''https://pseudovpn-us-backup.deno.dev'']\<rparr>,
         ''EU'' \<mapsto> \<lparr>name = ''Europe'',
                   workers = [''https://pseudovpn-eu-west.hakzeemirror.workers.dev'',
                              ''https://pseudovpn-eu-backup.deno.dev'']\<rparr>,
         ''AP'' \<mapsto> \<lparr>name = ''Asia Pacific'',
                   workers = [''https://pseudovpn-ap-southeast.hakzeemirror.workers.dev'',
                              ''https://pseudovpn-ap-backup.deno.dev'']\<rparr>],
      auth = \<lparr>tokenDuration = 300, refreshBuffer = 60\<rparr>,
      health = \<lparr>checkInterval = 30000, timeout = 5000\<rparr>\<rparr>"

text \<open>
  Region \<open>US\<close> with three endpoints: the probe of \<open>w1\<close> times out, \<open>w2\<close> is healthy after
  40 ms and \<open>w3\<close> after 120 ms.
\<close>

definition three_workers_config :: config where
  "three_workers_config =
     default_config\<lparr>regions :=
        [''US'' \<mapsto> \<lparr>name = ''United States'', workers = [''w1'', ''w2'', ''w3'']\<rparr>]\<rparr>"

definition three_workers_probe :: "nat \<Rightarrow> string \<Rightarrow> request_outcome" where
  "three_workers_probe i w =
     (if w = ''w2'' then Response 40 200 (Complete ''{}'')
      else if w = ''w3'' then Response 120 200 (Complete ''{}'')
      else TimerFirst)"


text \<open>
  Region \<open>US\<close> with an endpoint entered without its scheme, on which \<open>https.get\<close> throws,
  followed by a default endpoint that answers after 40 ms; the same region with the
  scheme-less endpoint alone; and a run in which the first endpoint sends its response
  head and never ends the body.
\<close>

definition unrequestable_config :: config where
  "unrequestable_config =
     default_config\<lparr>regions :=
        [''US'' \<mapsto> \<lparr>name = ''United States'',
                   workers = [''pseudovpn-us.example.workers.dev'',
                              ''https://pseudovpn-us-backup.deno.dev'']\<rparr>]\<rparr>"

definition single_unrequestable_config :: config where
  "single_unrequestable_config =
     default_config\<lparr>regions :=
        [''US'' \<mapsto> \<lparr>name = ''United States'',
                   workers = [''pseudovpn-us.example.workers.dev'']\<rparr>]\<rparr>"

definition unrequestable_probe :: "nat \<Rightarrow> string \<Rightarrow> request_outcome" where
  "unrequestable_probe i w =
     (if w = ''pseudovpn-us.example.workers.dev'' then RequestThrows ''Invalid URL''
      else Response 40 200 (Complete ''{}''))"

definition stalled_probe :: "nat \<Rightarrow> string \<Rightarrow> request_outcome" where
  "stalled_probe i w =
     (if i = 0 then Response 30 200 NeverEnds else Response 40 200 (Complete ''{}''))"

text \<open>
  A run in which every probe times out, the random sources return fixed values, every
  clock reading is 0 and the worker acknowledges the handshake with an empty object.
\<close>

definition parse_empty_object :: "string \<Rightarrow> json option" where
  "parse_empty_object text = (if text = ''{}'' then Some (JObj []) else None)"

definition timed_out :: "nat \<Rightarrow> string \<Rightarrow> request_outcome" where
  "timed_out i w = TimerFirst"

definition healthy_in :: "int \<Rightarrow> nat \<Rightarrow> string \<Rightarrow> request_outcome" where
  "healthy_in ms i w = Response ms 200 (Complete ''{}'')"

text \<open>The result of a probe answered with status 200 and the body \<open>{}\<close>.\<close>

definition healthy_result :: "int \<Rightarrow> string \<Rightarrow> probe_result" where
  "healthy_result ms w = \<lparr>url = w, status = Healthy, latency = ms, data = Some (JObj [])\<rparr>"

definition sample_env :: env where
  "sample_env =
     \<lparr>probe = timed_out,
      randomUUID = Some ''123e4567-e89b-12d3-a456-426614174000'',
      randomBytes_hex = ''00'',
      hmac_sha256 = (\<lambda>key msg. [0]),
      now_issued = 0, now_expires = 0, now_connected = 0, now_schedule = 0,
      handshake = (\<lambda>w tok. HttpResponse 200 ''{}''),
      JSON_parse = parse_empty_object\<rparr>"

text \<open>The same run with the probes of the scheme-less endpoint.\<close>

definition unrequestable_env :: env where
  "unrequestable_env = sample_env\<lparr>probe := unrequestable_probe\<rparr>"

text \<open>The same run with every probe healthy after 40 ms.\<close>

definition healthy_env :: env where
  "healthy_env = sample_env\<lparr>probe := healthy_in 40\<rparr>"

text \<open>The worker answers the handshake with status 500.\<close>

definition rejecting_env :: env where
  "rejecting_env = healthy_env\<lparr>handshake := (\<lambda>w tok. HttpResponse 500 ''overloaded'')\<rparr>"

text \<open>Configurations whose refresh buffer is not shorter than the token duration.\<close>

definition equal_window_config :: config where
  "equal_window_config = default_config\<lparr>auth := \<lparr>tokenDuration = 60, refreshBuffer = 60\<rparr>\<rparr>"

definition short_token_config :: config where
  "short_token_config = default_config\<lparr>auth := \<lparr>tokenDuration = 30, refreshBuffer = 60\<rparr>\<rparr>"

text \<open>A configuration whose tokens last 30 days.\<close>

definition long_token_config :: config where
  "long_token_config =
     default_config\<lparr>auth := \<lparr>tokenDuration = 2592000, refreshBuffer = 60\<rparr>\<rparr>"

text \<open>The instant at which an armed timer fires.\<close>

definition fires_at :: "timer \<Rightarrow> int" where
  "fires_at t = armed_at t + delay t"

text \<open>
  A connected client, and a run in which \<open>crypto.randomUUID\<close> throws and every probe times
  out.
\<close>

definition connected_client :: client where
  "connected_client = snd (connect healthy_env (new_client default_config) ''US'')"

definition no_entropy_env :: env where
  "no_entropy_env = sample_env\<lparr>randomUUID := None\<rparr>"

text \<open>The outcomes of a request on which \<open>healthCheck\<close> has a callback that resolves.\<close>

fun answered :: "request_outcome \<Rightarrow> bool" where
  "answered TimerFirst = True"
| "answered (Response elapsed statusCode (Complete text)) = True"
| "answered (Response elapsed statusCode NeverEnds) = False"
| "answered (ConnectionError elapsed) = True"
| "answered (RequestThrows msg) = False"

text \<open>
  The validation as the specification words it, with its three kinds of failure, for
  comparison with \<open>validateToken_with\<close>.
\<close>

datatype token_error = MalformedToken | Expired | SessionMismatch

definition validate_spec ::
  "(string \<Rightarrow> string option) \<Rightarrow> (string \<Rightarrow> json option) \<Rightarrow> (json \<Rightarrow> int option) \<Rightarrow>
   int \<Rightarrow> string \<Rightarrow> string \<Rightarrow> token_error + json" where
  "validate_spec decode parse conv now tok sid =
     (let parts = split_on CHR ''.'' tok in
      if length parts \<noteq> 3 then Inl MalformedToken
      else (case decode (parts ! 1) of
              None \<Rightarrow> Inl MalformedToken
            | Some text \<Rightarrow>
                (case parse text of
                   None \<Rightarrow> Inl MalformedToken
                 | Some p \<Rightarrow>
                     if js_gt conv now (get_member p ''expires'') then Inl Expired
                     else if get_member p ''sessionId'' \<noteq> Some (JStr sid) then Inl SessionMismatch
                     else Inr p)))"

text \<open>
  What \<open>JSON.parse\<close> returns on the text \<open>JSON.stringify\<close> made of a payload, and a parser
  that knows this one text.
\<close>

definition json_of_payload :: "token_payload \<Rightarrow> json" where
  "json_of_payload p =
     JObj [(''country'', JStr (country p)), (''workerId'', JStr (workerId p)),
           (''sessionId'', JStr (sessionId p)), (''issued'', JNum (issued p)),
           (''expires'', JNum (expires p))]"

definition parse_only :: "token_payload \<Rightarrow> string \<Rightarrow> json option" where
  "parse_only p text = (if text = stringify_payload p then Some (json_of_payload p) else None)"

text \<open>A number conversion for runs that never convert a string, an array or an object.\<close>

definition nan_conversion :: "json \<Rightarrow> int option" where
  "nan_conversion v = None"

text \<open>The token string of a generation result; empty when generation threw.\<close>

definition token_of :: "error + session_info \<Rightarrow> string" where
  "token_of r = (case r of Inl err \<Rightarrow> [] | Inr info \<Rightarrow> token info)"

text \<open>
  The payload minted by \<open>sample_env\<close> under the default configuration for region \<open>US\<close> and a
  worker address, and two addresses: the first default worker, and one with a \<open>~\<close> in its
  path.
\<close>

definition sample_payload :: "string \<Rightarrow> token_payload" where
  "sample_payload wid =
     \<lparr>country = ''US'', workerId = wid, sessionId = ''123e4567-e89b-12d3-a456-426614174000'',
      issued = 0, expires = 300000\<rparr>"

definition default_worker :: string where
  "default_worker = ''https://pseudovpn-us-east.hakzeemirror.workers.dev''"

definition tilde_worker :: string where
  "tilde_worker = ''https://edge.example.com/~vpn''"

section \<open>Properties of endpoint selection\<close>

lemma sort_insert_not_Nil: "sort_insert cmp x ys \<noteq> []"
  by (cases ys) auto

lemma hd_sort_insert:
  "hd (sort_insert cmp x ys) = (if ys = [] \<or> cmp x (hd ys) \<le> 0 then x else hd ys)"
  by (cases ys) auto

lemma array_sort_Nil_iff: "array_sort cmp xs = [] \<longleftrightarrow> xs = []"
  by (cases xs) (auto simp: sort_insert_not_Nil)

text \<open>
  The head of the sorted, filtered list is the first element of the original list that
  satisfies the filter and has the least key.
\<close>

lemma hd_array_sort_filter:
  fixes f :: "'a \<Rightarrow> int"
  assumes "filter P xs \<noteq> []"
  shows "\<exists>i<length xs. hd (array_sort (\<lambda>a b. f a - f b) (filter P xs)) = xs ! i \<and> P (xs ! i) \<and>
           (\<forall>j<length xs. P (xs ! j) \<longrightarrow>
              f (xs ! i) \<le> f (xs ! j) \<and> (j < i \<longrightarrow> f (xs ! i) < f (xs ! j)))"
  using assms
proof (induction xs)
  case Nil
  then show ?case by simp
next
  case (Cons x xs)
  let ?s = "\<lambda>ys. array_sort (\<lambda>a b. f a - f b) (filter P ys)"
  show ?case
  proof (cases "filter P xs = []")
    case True
    with Cons.prems have px: "P x" by (auto split: if_splits)
    have none: "\<And>j. j < length xs \<Longrightarrow> \<not> P (xs ! j)"
      using True by (auto simp: filter_empty_conv)
    have "hd (?s (x # xs)) = (x # xs) ! 0" using px True by simp
    moreover have "\<forall>j<length (x # xs). P ((x # xs) ! j) \<longrightarrow>
        f ((x # xs) ! 0) \<le> f ((x # xs) ! j) \<and> (j < 0 \<longrightarrow> f ((x # xs) ! 0) < f ((x # xs) ! j))"
    proof (intro allI impI)
      fix j assume "j < length (x # xs)" and "P ((x # xs) ! j)"
      then have "j = 0" using none by (cases j) auto
      then show "f ((x # xs) ! 0) \<le> f ((x # xs) ! j) \<and>
                 (j < 0 \<longrightarrow> f ((x # xs) ! 0) < f ((x # xs) ! j))" by simp
    qed
    ultimately show ?thesis using px by (intro exI[of _ 0]) simp
  next
    case False
    from Cons.IH[OF False] obtain i where i: "i < length xs"
      and hd_i: "hd (?s xs) = xs ! i" and pi: "P (xs ! i)"
      and least: "\<And>j. j < length xs \<Longrightarrow> P (xs ! j) \<Longrightarrow>
                    f (xs ! i) \<le> f (xs ! j) \<and> (j < i \<longrightarrow> f (xs ! i) < f (xs ! j))"
      by blast
    have ne: "?s xs \<noteq> []" using False by (simp add: array_sort_Nil_iff)
    show ?thesis
    proof (cases "P x \<and> f x \<le> f (xs ! i)")
      case True
      then have "hd (?s (x # xs)) = (x # xs) ! 0"
        using ne hd_i by (simp add: hd_sort_insert)
      moreover have "\<forall>j<length (x # xs). P ((x # xs) ! j) \<longrightarrow>
          f ((x # xs) ! 0) \<le> f ((x # xs) ! j) \<and>
          (j < 0 \<longrightarrow> f ((x # xs) ! 0) < f ((x # xs) ! j))"
      proof (intro allI impI)
        fix j assume j: "j < length (x # xs)" and pj: "P ((x # xs) ! j)"
        show "f ((x # xs) ! 0) \<le> f ((x # xs) ! j) \<and>
              (j < 0 \<longrightarrow> f ((x # xs) ! 0) < f ((x # xs) ! j))"
        proof (cases j)
          case 0
          then show ?thesis by simp
        next
          case (Suc k)
          then have "f (xs ! i) \<le> f (xs ! k)" using least[of k] j pj by simp
          then show ?thesis using True Suc by simp
        qed
      qed
      ultimately show ?thesis using True by (intro exI[of _ 0]) simp
    next
      case False
      then have hd_eq: "hd (?s (x # xs)) = (x # xs) ! Suc i"
        using ne hd_i by (auto simp: hd_sort_insert)
      have "\<forall>j<length (x # xs). P ((x # xs) ! j) \<longrightarrow>
          f ((x # xs) ! Suc i) \<le> f ((x # xs) ! j) \<and>
          (j < Suc i \<longrightarrow> f ((x # xs) ! Suc i) < f ((x # xs) ! j))"
      proof (intro allI impI)
        fix j assume j: "j < length (x # xs)" and pj: "P ((x # xs) ! j)"
        show "f ((x # xs) ! Suc i) \<le> f ((x # xs) ! j) \<and>
              (j < Suc i \<longrightarrow> f ((x # xs) ! Suc i) < f ((x # xs) ! j))"
        proof (cases j)
          case 0
          then show ?thesis using False pj by auto
        next
          case (Suc k)
          then show ?thesis using least[of k] j pj by simp
        qed
      qed
      then show ?thesis using hd_eq pi i by (intro exI[of _ "Suc i"]) simp
    qed
  qed
qed

lemma promise_all_Resolved: "promise_all (map Resolved xs) = Resolved xs"
  by (induction xs) simp_all

lemma probes_resolved:
  assumes "\<forall>k<length ws. healthCheck parse (ws ! k) 5000 (net k (ws ! k)) = Resolved (hc k)"
  shows "promise_all (map (\<lambda>(i, w). healthCheck parse w 5000 (net i w)) (enumerate 0 ws)) =
         Resolved (map hc [0..<length ws])"
proof -
  have "map (\<lambda>(i, w). healthCheck parse w 5000 (net i w)) (enumerate 0 ws) =
        map Resolved (map hc [0..<length ws])"
    using assms by (intro nth_equalityI) (simp_all add: nth_enumerate_eq)
  then show ?thesis by (simp only: promise_all_Resolved)
qed

lemma probes_sent:
  assumes "\<forall>k<length ws. healthCheck parse (ws ! k) 5000 (net k (ws ! k)) = Resolved (hc k)"
  shows "map (\<lambda>(i, w). HealthRequest w)
           (filter (\<lambda>(i, w). request_sent (net i w)) (enumerate 0 ws)) =
         map HealthRequest ws"
proof -
  have sent: "request_sent (net k (ws ! k))" if "k < length ws" for k
  proof (cases "net k (ws ! k)")
    case (RequestThrows msg)
    with assms that show ?thesis by (auto simp: healthCheck_def)
  qed simp_all
  have "filter (\<lambda>(i, w). request_sent (net i w)) (enumerate 0 ws) = enumerate 0 ws"
    using sent by (auto simp: filter_id_conv in_set_enumerate_eq)
  moreover have "map (\<lambda>(i, w). HealthRequest w) (enumerate 0 ws) = map HealthRequest ws"
    by (intro nth_equalityI) (simp_all add: nth_enumerate_eq)
  ultimately show ?thesis by simp
qed

text \<open>\<open>getBestWorker\<close> when every \<open>healthCheck\<close> promise of the region resolves.\<close>

lemma getBestWorker_resolved:
  assumes "regions cfg c = Some r"
    and "\<forall>k<length (workers r).
           healthCheck parse (workers r ! k) 5000 (net k (workers r ! k)) = Resolved (hc k)"
  shows "getBestWorker cfg parse net c =
           (let sortedWorkers =
                  array_sort (\<lambda>a b. latency a - latency b)
                    (filter (\<lambda>check. status check = Healthy) (map hc [0..<length (workers r)]))
            in if sortedWorkers = [] then Rejected (NoHealthyWorkers c)
               else Resolved (hd sortedWorkers),
            map HealthRequest (workers r))"
proof -
  note resolved = probes_resolved[of "workers r" parse net hc, OF assms(2)]
  note sent = probes_sent[of "workers r" parse net hc, OF assms(2)]
  show ?thesis
    using assms(1)
    by (simp add: getBestWorker_def get_property_def Let_def resolved sent hd_conv_nth)
qed

text \<open>
  When every probe of a configured region resolves and at least one result is healthy,
  \<open>getBestWorker\<close> returns a healthy result of least latency among the healthy ones, and
  among healthy results of equal latency the one whose endpoint comes first in the
  region's list: every healthy result at an earlier position has strictly greater latency.
\<close>

lemma getBestWorker_ranks_resolved_probes:
  assumes "regions cfg c = Some r"
    and "\<forall>k<length (workers r).
           healthCheck parse (workers r ! k) 5000 (net k (workers r ! k)) = Resolved (hc k)"
    and "\<exists>k<length (workers r). status (hc k) = Healthy"
  shows "\<exists>i<length (workers r).
           fst (getBestWorker cfg parse net c) = Resolved (hc i) \<and>
           status (hc i) = Healthy \<and>
           (\<forall>j<length (workers r). status (hc j) = Healthy \<longrightarrow>
              latency (hc i) \<le> latency (hc j) \<and> (j < i \<longrightarrow> latency (hc i) < latency (hc j)))"
proof -
  let ?checks = "map hc [0..<length (workers r)]"
  let ?healthy = "filter (\<lambda>check. status check = Healthy) ?checks"
  let ?sorted = "array_sort (\<lambda>a b. latency a - latency b) ?healthy"
  have nth: "\<And>k. k < length (workers r) \<Longrightarrow> ?checks ! k = hc k" by simp
  have len: "length ?checks = length (workers r)" by simp
  from assms(3) obtain k where k: "k < length (workers r)" and hk: "status (hc k) = Healthy"
    by blast
  have "?checks ! k \<in> set ?checks"
    using k len by (metis nth_mem)
  moreover have "status (?checks ! k) = Healthy"
    using hk nth[OF k] by simp
  ultimately have ne: "?healthy \<noteq> []"
    unfolding filter_empty_conv by blast
  then have sorted_ne: "?sorted \<noteq> []"
    by (simp add: array_sort_Nil_iff)
  have res: "fst (getBestWorker cfg parse net c) = Resolved (hd ?sorted)"
    using sorted_ne
    by (simp add: getBestWorker_resolved[of cfg c r parse net hc, OF assms(1,2)] Let_def)
  from hd_array_sort_filter[of "\<lambda>check. status check = Healthy" ?checks latency, OF ne]
  obtain i where i: "i < length ?checks"
    and hd_i: "hd ?sorted = ?checks ! i"
    and st_i: "status (?checks ! i) = Healthy"
    and least: "\<forall>j<length ?checks. status (?checks ! j) = Healthy \<longrightarrow>
                  latency (?checks ! i) \<le> latency (?checks ! j) \<and>
                  (j < i \<longrightarrow> latency (?checks ! i) < latency (?checks ! j))"
    by blast
  have i': "i < length (workers r)" using i by simp
  moreover have "fst (getBestWorker cfg parse net c) = Resolved (hc i)"
    using res hd_i nth[OF i'] by simp
  moreover have "status (hc i) = Healthy"
    using st_i nth[OF i'] by simp
  moreover have "\<forall>j<length (workers r). status (hc j) = Healthy \<longrightarrow>
      latency (hc i) \<le> latency (hc j) \<and> (j < i \<longrightarrow> latency (hc i) < latency (hc j))"
  proof (intro allI impI)
    fix j assume j: "j < length (workers r)" and hj: "status (hc j) = Healthy"
    have cj: "?checks ! j = hc j" by (rule nth[OF j])
    have ci: "?checks ! i = hc i" by (rule nth[OF i'])
    have jl: "j < length ?checks" using j by (simp only: len)
    have sj: "status (?checks ! j) = Healthy" unfolding cj by (rule hj)
    from least[rule_format, OF jl sj]
    show "latency (hc i) \<le> latency (hc j) \<and> (j < i \<longrightarrow> latency (hc i) < latency (hc j))"
      unfolding cj ci .
  qed
  ultimately show ?thesis by blast
qed

text \<open>
  The scenario of the specification: with \<open>w1\<close> timed out, \<open>w2\<close> healthy at 40 ms and \<open>w3\<close>
  healthy at 120 ms, the result selected is that of \<open>w2\<close>.
\<close>

lemma three_workers_scenario:
  "fst (getBestWorker three_workers_config parse_empty_object three_workers_probe ''US'') =
     Resolved (healthy_result 40 ''w2'')"
  by (simp add: getBestWorker_def get_property_def three_workers_config_def
      three_workers_probe_def healthCheck_def parse_empty_object_def healthy_result_def Let_def)

text \<open>
  Claim C1 at region \<open>US\<close> with the endpoints \<open>pseudovpn-us.example.workers.dev\<close> and
  \<open>https://pseudovpn-us-backup.deno.dev\<close>. The probe of the second endpoint resolves to a
  healthy result after 40 ms. On the first address, which has no scheme, \<open>https.get\<close>
  throws, the \<open>healthCheck\<close> promise rejects, and \<open>getBestWorker\<close> throws that error instead
  of returning the healthy result. When the first endpoint instead sends its response head
  and never ends the body, \<open>getBestWorker\<close> never returns.
\<close>

theorem getBestWorker_loses_healthy_result:
  "healthCheck parse_empty_object ''https://pseudovpn-us-backup.deno.dev'' 5000
     (unrequestable_probe 1 ''https://pseudovpn-us-backup.deno.dev'') =
     Resolved (healthy_result 40 ''https://pseudovpn-us-backup.deno.dev'') \<and>
   fst (getBestWorker unrequestable_config parse_empty_object unrequestable_probe ''US'') =
     Rejected (RequestError ''Invalid URL'') \<and>
   healthCheck parse_empty_object ''https://pseudovpn-us-backup.deno.dev'' 5000
     (stalled_probe 1 ''https://pseudovpn-us-backup.deno.dev'') =
     Resolved (healthy_result 40 ''https://pseudovpn-us-backup.deno.dev'') \<and>
   fst (getBestWorker unrequestable_config parse_empty_object stalled_probe ''US'') = Pending"
  by (simp add: getBestWorker_def get_property_def unrequestable_config_def
      unrequestable_probe_def stalled_probe_def healthCheck_def parse_empty_object_def
      healthy_result_def Let_def)

section \<open>Properties of connect\<close>

lemma getBestWorker_no_healthy:
  assumes "regions cfg c = Some r"
    and "\<forall>k<length (workers r).
           healthCheck parse (workers r ! k) 5000 (net k (workers r ! k)) = Resolved (hc k)"
    and "\<forall>k<length (workers r). status (hc k) \<noteq> Healthy"
  shows "getBestWorker cfg parse net c =
           (Rejected (NoHealthyWorkers c), map HealthRequest (workers r))"
proof -
  have "filter (\<lambda>check. status check = Healthy) (map hc [0..<length (workers r)]) = []"
    using assms(3) by (auto simp: filter_empty_conv)
  then show ?thesis
    by (simp add: getBestWorker_resolved[of cfg c r parse net hc, OF assms(1,2)] Let_def)
qed

lemma connect_selection_fails:
  assumes "fst (getBestWorker (config st) (JSON_parse e) (probe e) c) = Rejected err"
  shows "connect e st c =
           (Rejected err,
            st\<lparr>requests := requests st @
                 snd (getBestWorker (config st) (JSON_parse e) (probe e) c)\<rparr>)"
  using assms by (simp add: connect_def Let_def case_prod_beta)

text \<open>
  When every probe of a configured region resolves and no result is healthy,
  \<open>getBestWorker\<close> throws the no-healthy-workers error; \<open>connect\<close> then fails with that error,
  has sent the health requests and nothing else (no handshake request), and leaves every
  other field of the client as it was.
\<close>

lemma connect_no_healthy_when_probes_resolve:
  assumes "regions (config st) c = Some r"
    and "\<forall>k<length (workers r).
           healthCheck (JSON_parse e) (workers r ! k) 5000 (probe e k (workers r ! k)) =
           Resolved (hc k)"
    and "\<forall>k<length (workers r). status (hc k) \<noteq> Healthy"
  shows "connect e st c =
           (Rejected (NoHealthyWorkers c),
            st\<lparr>requests := requests st @ map HealthRequest (workers r)\<rparr>)"
  using connect_selection_fails[of st e c "NoHealthyWorkers c"]
    getBestWorker_no_healthy[of "config st" c r "JSON_parse e" "probe e" hc, OF assms]
  by simp

text \<open>
  Claim C2 at region \<open>US\<close> with the single endpoint \<open>pseudovpn-us.example.workers.dev\<close>. No
  probe returns a healthy result: \<open>https.get\<close> throws on the address and the only
  \<open>healthCheck\<close> promise rejects. \<open>getBestWorker\<close> throws that error, which is not the
  no-healthy-workers error, and \<open>connect\<close> fails with it; no request has been sent and the
  client is as it was.
\<close>

theorem connect_unrequestable_endpoint:
  "regions (config (new_client single_unrequestable_config)) ''US'' =
     Some \<lparr>name = ''United States'', workers = [''pseudovpn-us.example.workers.dev'']\<rparr> \<and>
   healthCheck (JSON_parse unrequestable_env) ''pseudovpn-us.example.workers.dev'' 5000
     (probe unrequestable_env 0 ''pseudovpn-us.example.workers.dev'') =
     Rejected (RequestError ''Invalid URL'') \<and>
   fst (getBestWorker single_unrequestable_config (JSON_parse unrequestable_env)
          (probe unrequestable_env) ''US'') = Rejected (RequestError ''Invalid URL'') \<and>
   RequestError ''Invalid URL'' \<noteq> NoHealthyWorkers ''US'' \<and>
   connect unrequestable_env (new_client single_unrequestable_config) ''US'' =
     (Rejected (RequestError ''Invalid URL''), new_client single_unrequestable_config)"
  by (simp add: connect_def getBestWorker_def get_property_def single_unrequestable_config_def
      unrequestable_env_def sample_env_def unrequestable_probe_def healthCheck_def
      new_client_def Let_def)

lemma generateSessionToken_Inr:
  assumes "generateSessionToken e cfg c wid = Inr info"
  shows "randomUUID e = Some (sessionId (payload info)) \<and>
         country (payload info) = c \<and> workerId (payload info) = wid \<and>
         issued (payload info) = now_issued e \<and>
         expires (payload info) = now_expires e + tokenDuration (auth cfg) * 1000"
  using assms by (auto simp: generateSessionToken_def Let_def split: option.splits)

lemma generateSessionToken_defined:
  assumes "randomUUID e = Some uuid"
  shows "\<exists>info. generateSessionToken e cfg c wid = Inr info"
  using assms by (simp add: generateSessionToken_def Let_def)

lemma connect_after_selection:
  assumes "getBestWorker (config st) (JSON_parse e) (probe e) c = (Resolved w, probes)"
    and "generateSessionToken e (config st) c (url w) = Inr info"
  shows "connect e st c =
     (let st2 = st\<lparr>sessionToken := Some (token info),
                     tokenExpiry := Some (expires (payload info)),
                     requests := requests st @ probes @
                       [ConnectRequest (url w) (token info) (sessionId (payload info))]\<rparr>
      in case establishConnection (JSON_parse e) (handshake e (url w) (token info)) of
           Inl err \<Rightarrow> (Rejected err, st2)
         | Inr ack \<Rightarrow>
             let st3 = st2\<lparr>currentSession :=
                         Some \<lparr>session_country = c, worker = w,
                               session_id = sessionId (payload info),
                               connectedAt = now_connected e\<rparr>\<rparr>
             in if ack = JNull then (Rejected TypeError_null_member, st3)
                else (Resolved ack, scheduleTokenRefresh (now_schedule e) st3))"
  using assms by (simp add: connect_def Let_def split: sum.splits)

lemma connect_succeeds_then:
  assumes "fst (connect e st c) = Resolved ack"
  shows "\<exists>w probes info.
           getBestWorker (config st) (JSON_parse e) (probe e) c = (Resolved w, probes) \<and>
           generateSessionToken e (config st) c (url w) = Inr info \<and>
           snd (connect e st c) =
             scheduleTokenRefresh (now_schedule e)
               (st\<lparr>sessionToken := Some (token info),
                    tokenExpiry := Some (expires (payload info)),
                    requests := requests st @ probes @
                      [ConnectRequest (url w) (token info) (sessionId (payload info))],
                    currentSession :=
                      Some \<lparr>session_country = c, worker = w,
                            session_id = sessionId (payload info),
                            connectedAt = now_connected e\<rparr>\<rparr>)"
  using assms
  by (auto simp: connect_def Let_def split: prod.splits promise.splits sum.splits if_splits)

lemma connect_fails_then:
  assumes "fst (connect e st c) = Rejected err"
  shows "tokenRefreshTimeout (snd (connect e st c)) = tokenRefreshTimeout st \<and>
         (currentSession st \<noteq> None \<longrightarrow> currentSession (snd (connect e st c)) \<noteq> None)"
  using assms
  by (auto simp: connect_def Let_def split: prod.splits promise.splits sum.splits if_splits)

text \<open>
  The guard at work: for a region code that is neither a key of the regions
  object nor a name every object inherits, \<open>connect\<close> throws "Country ... not supported"
  and leaves the client, its list of requests included, as it was.
\<close>

lemma connect_unsupported_country:
  assumes "regions (config st) c = None"
    and "c \<notin> set Object_prototype_keys"
  shows "connect e st c = (Rejected (CountryNotSupported c), st)"
    and "error_message (CountryNotSupported c) = Some (''Country '' @ c @ '' not supported'')"
  using assms
  by (simp_all add: connect_def getBestWorker_def get_property_def Let_def error_message_def)

text \<open>
  Claim C10 at the region code \<open>constructor\<close>, which the default configuration does not
  have: \<open>regions[country]\<close> is the inherited \<open>Object\<close> function, the guard lets it pass, and
  reading \<open>workers.map\<close> of \<open>undefined\<close> throws a TypeError instead of the "not supported"
  error. No request is sent and the session fields stay as they were.
\<close>

theorem connect_inherited_region_key:
  "regions default_config ''constructor'' = None \<and>
   connect e (new_client default_config) ''constructor'' =
     (Rejected TypeError_workers_undefined, new_client default_config) \<and>
   TypeError_workers_undefined \<noteq> CountryNotSupported ''constructor'' \<and>
   error_message TypeError_workers_undefined \<noteq> Some ''Country constructor not supported''"
  by (simp add: connect_def getBestWorker_def get_property_def Let_def
      new_client_def default_config_def Object_prototype_keys_def error_message_def)

text \<open>
  Claim C3, as the code has it. When selection and token generation succeed and the
  handshake response has a status other than 200, \<open>connect\<close> fails with the HTTP error
  carrying status and body; \<open>currentSession\<close> and the refresh timer are as before the call,
  but \<open>sessionToken\<close> and \<open>tokenExpiry\<close> hold the token generated during the attempt.
\<close>

theorem connect_handshake_rejected:
  assumes "getBestWorker (config st) (JSON_parse e) (probe e) c = (Resolved w, probes)"
    and "generateSessionToken e (config st) c (url w) = Inr info"
    and "handshake e (url w) (token info) = HttpResponse code text"
    and "code \<noteq> 200"
  shows "fst (connect e st c) = Rejected (HttpStatus code text) \<and>
         currentSession (snd (connect e st c)) = currentSession st \<and>
         tokenRefreshTimeout (snd (connect e st c)) = tokenRefreshTimeout st \<and>
         sessionToken (snd (connect e st c)) = Some (token info) \<and>
         tokenExpiry (snd (connect e st c)) = Some (expires (payload info))"
  using assms(3,4)
  by (simp add: connect_after_selection[OF assms(1,2)] establishConnection_def Let_def)

lemma sample_selection:
  "getBestWorker default_config parse_empty_object (healthy_in 40) ''US'' =
     (Resolved (healthy_result 40 ''https://pseudovpn-us-east.hakzeemirror.workers.dev''),
      [HealthRequest ''https://pseudovpn-us-east.hakzeemirror.workers.dev'',
       HealthRequest ''https://pseudovpn-us-backup.deno.dev''])"
  by (simp add: getBestWorker_def get_property_def default_config_def healthy_in_def
      healthCheck_def parse_empty_object_def healthy_result_def Let_def)

theorem connect_handshake_rejected_witness:
  "fst (connect rejecting_env (new_client default_config) ''US'') =
     Rejected (HttpStatus 500 ''overloaded'') \<and>
   currentSession (snd (connect rejecting_env (new_client default_config) ''US'')) = None \<and>
   tokenRefreshTimeout (snd (connect rejecting_env (new_client default_config) ''US'')) = None \<and>
   tokenExpiry (snd (connect rejecting_env (new_client default_config) ''US'')) = Some 300000"
proof -
  let ?st = "new_client default_config"
  let ?w = "healthy_result 40 ''https://pseudovpn-us-east.hakzeemirror.workers.dev''"
  have sel: "getBestWorker (config ?st) (JSON_parse rejecting_env) (probe rejecting_env) ''US'' =
      (Resolved ?w, [HealthRequest ''https://pseudovpn-us-east.hakzeemirror.workers.dev'',
                     HealthRequest ''https://pseudovpn-us-backup.deno.dev''])"
    using sample_selection
    by (simp add: new_client_def rejecting_env_def healthy_env_def sample_env_def)
  have uuid: "randomUUID rejecting_env = Some ''123e4567-e89b-12d3-a456-426614174000''"
    by (simp add: rejecting_env_def healthy_env_def sample_env_def)
  obtain info where gen: "generateSessionToken rejecting_env (config ?st) ''US'' (url ?w) = Inr info"
    using generateSessionToken_defined[OF uuid] by blast
  have hs: "handshake rejecting_env (url ?w) (token info) = HttpResponse 500 ''overloaded''"
    by (simp add: rejecting_env_def)
  have code: "(500::nat) \<noteq> 200" by simp
  have exp: "expires (payload info) = 300000"
    using generateSessionToken_Inr[OF gen]
    by (simp add: new_client_def default_config_def rejecting_env_def healthy_env_def
        sample_env_def)
  show ?thesis
    using connect_handshake_rejected[OF sel gen hs code] exp
    by (simp add: new_client_def)
qed

text \<open>
  Claim C3 as stated fails: a client that has never been connected calls \<open>connect\<close>, the
  worker answers the handshake with status 500, and afterwards \<open>sessionToken\<close> and
  \<open>tokenExpiry\<close> are no longer what they were before the call.
\<close>

theorem connect_handshake_rejected_counterexample:
  "fst (connect rejecting_env (new_client default_config) ''US'') =
     Rejected (HttpStatus 500 ''overloaded'') \<and>
   sessionToken (new_client default_config) = None \<and>
   sessionToken (snd (connect rejecting_env (new_client default_config) ''US'')) \<noteq> None \<and>
   tokenExpiry (new_client default_config) = None \<and>
   tokenExpiry (snd (connect rejecting_env (new_client default_config) ''US'')) = Some 300000"
proof -
  let ?st = "new_client default_config"
  let ?w = "healthy_result 40 ''https://pseudovpn-us-east.hakzeemirror.workers.dev''"
  have sel: "getBestWorker (config ?st) (JSON_parse rejecting_env) (probe rejecting_env) ''US'' =
      (Resolved ?w, [HealthRequest ''https://pseudovpn-us-east.hakzeemirror.workers.dev'',
                     HealthRequest ''https://pseudovpn-us-backup.deno.dev''])"
    using sample_selection
    by (simp add: new_client_def rejecting_env_def healthy_env_def sample_env_def)
  have uuid: "randomUUID rejecting_env = Some ''123e4567-e89b-12d3-a456-426614174000''"
    by (simp add: rejecting_env_def healthy_env_def sample_env_def)
  obtain info where gen: "generateSessionToken rejecting_env (config ?st) ''US'' (url ?w) = Inr info"
    using generateSessionToken_defined[OF uuid] by blast
  have exp: "expires (payload info) = 300000"
    using generateSessionToken_Inr[OF gen]
    by (simp add: new_client_def default_config_def rejecting_env_def healthy_env_def
        sample_env_def)
  have hs: "handshake rejecting_env (url ?w) (token info) = HttpResponse 500 ''overloaded''"
    by (simp add: rejecting_env_def)
  have run: "connect rejecting_env ?st ''US'' =
      (Rejected (HttpStatus 500 ''overloaded''),
       ?st\<lparr>sessionToken := Some (token info), tokenExpiry := Some 300000,
            requests := requests ?st @
              [HealthRequest ''https://pseudovpn-us-east.hakzeemirror.workers.dev'',
               HealthRequest ''https://pseudovpn-us-backup.deno.dev''] @
              [ConnectRequest (url ?w) (token info) (sessionId (payload info))]\<rparr>)"
    using exp hs
    by (simp add: connect_after_selection[OF sel gen] establishConnection_def Let_def)
  have before: "sessionToken ?st = None \<and> tokenExpiry ?st = None"
    by (simp add: new_client_def)
  show ?thesis
    using before by (simp add: run)
qed

section \<open>Properties of the refresh timer\<close>

lemma scheduleTokenRefresh_fields:
  "currentSession (scheduleTokenRefresh now st) = currentSession st \<and>
   sessionToken (scheduleTokenRefresh now st) = sessionToken st \<and>
   tokenExpiry (scheduleTokenRefresh now st) = tokenExpiry st \<and>
   config (scheduleTokenRefresh now st) = config st \<and>
   requests (scheduleTokenRefresh now st) = requests st"
  by (simp add: scheduleTokenRefresh_def Let_def)

lemma scheduleTokenRefresh_arms:
  assumes "tokenExpiry st = Some t"
    and "0 < t - now - refreshBuffer (auth (config st)) * 1000"
    and "t - now - refreshBuffer (auth (config st)) * 1000 \<le> 2147483647"
  shows "tokenRefreshTimeout (scheduleTokenRefresh now st) =
           Some \<lparr>armed_at = now, delay = t - now - refreshBuffer (auth (config st)) * 1000,
                 pending = True\<rparr>"
  using assms by (simp add: scheduleTokenRefresh_def setTimeout_def TIMEOUT_MAX_def Let_def)

text \<open>A delay above the limit of \<open>setTimeout\<close> arms a timer that fires after 1 ms.\<close>

lemma scheduleTokenRefresh_beyond_limit:
  assumes "tokenExpiry st = Some t"
    and "2147483647 < t - now - refreshBuffer (auth (config st)) * 1000"
  shows "tokenRefreshTimeout (scheduleTokenRefresh now st) =
           Some \<lparr>armed_at = now, delay = 1, pending = True\<rparr>"
  using assms by (simp add: scheduleTokenRefresh_def setTimeout_def TIMEOUT_MAX_def Let_def)

lemma scheduleTokenRefresh_skips:
  assumes "(case tokenExpiry st of None \<Rightarrow> 0 | Some t \<Rightarrow> t) - now
             - refreshBuffer (auth (config st)) * 1000 \<le> 0"
  shows "scheduleTokenRefresh now st =
           st\<lparr>tokenRefreshTimeout := clearTimeout (tokenRefreshTimeout st)\<rparr>"
  using assms by (simp add: scheduleTokenRefresh_def Let_def)

lemma clearTimeout_not_pending:
  "\<not> timer_pending (st\<lparr>tokenRefreshTimeout := clearTimeout h\<rparr>)"
  by (cases h) (simp_all add: timer_pending_def clearTimeout_def)

lemma connect_success_timer:
  assumes "fst (connect e st c) = Resolved ack"
  shows "\<exists>st3. snd (connect e st c) = scheduleTokenRefresh (now_schedule e) st3 \<and>
           config st3 = config st \<and>
           tokenExpiry st3 = Some (now_expires e + tokenDuration (auth (config st)) * 1000) \<and>
           tokenRefreshTimeout st3 = tokenRefreshTimeout st"
proof -
  from connect_succeeds_then[OF assms] obtain w probes info where
    gen: "generateSessionToken e (config st) c (url w) = Inr info" and
    run: "snd (connect e st c) =
             scheduleTokenRefresh (now_schedule e)
               (st\<lparr>sessionToken := Some (token info),
                    tokenExpiry := Some (expires (payload info)),
                    requests := requests st @ probes @
                      [ConnectRequest (url w) (token info) (sessionId (payload info))],
                    currentSession :=
                      Some \<lparr>session_country = c, worker = w,
                            session_id = sessionId (payload info),
                            connectedAt = now_connected e\<rparr>\<rparr>)"
    by blast
  have "expires (payload info) = now_expires e + tokenDuration (auth (config st)) * 1000"
    using generateSessionToken_Inr[OF gen] by simp
  then show ?thesis using run by (intro exI conjI) (assumption, simp_all)
qed

lemma healthy_connect_result:
  assumes "regions cfg = regions default_config"
  shows "fst (connect healthy_env (new_client cfg) ''US'') = Resolved (JObj [])"
proof -
  let ?w = "healthy_result 40 ''https://pseudovpn-us-east.hakzeemirror.workers.dev''"
  have "getBestWorker cfg parse_empty_object (healthy_in 40) ''US'' =
        getBestWorker default_config parse_empty_object (healthy_in 40) ''US''"
    using assms by (simp add: getBestWorker_def)
  then have sel: "getBestWorker (config (new_client cfg)) (JSON_parse healthy_env)
                    (probe healthy_env) ''US'' =
      (Resolved ?w, [HealthRequest ''https://pseudovpn-us-east.hakzeemirror.workers.dev'',
                     HealthRequest ''https://pseudovpn-us-backup.deno.dev''])"
    using sample_selection by (simp add: new_client_def healthy_env_def sample_env_def)
  have uuid: "randomUUID healthy_env = Some ''123e4567-e89b-12d3-a456-426614174000''"
    by (simp add: healthy_env_def sample_env_def)
  obtain info where
    gen: "generateSessionToken healthy_env (config (new_client cfg)) ''US'' (url ?w) = Inr info"
    using generateSessionToken_defined[OF uuid] by blast
  have hs: "establishConnection (JSON_parse healthy_env)
              (handshake healthy_env (url ?w) (token info)) = Inr (JObj [])"
    by (simp add: healthy_env_def sample_env_def establishConnection_def parse_empty_object_def)
  show ?thesis
    by (simp add: connect_after_selection[OF sel gen] hs Let_def)
qed

text \<open>
  Claim C9, as the code has it. After a successful \<open>connect\<close> whose computed delay (expiry
  minus the clock reading at scheduling minus the refresh buffer) is positive and at most
  2147483647 ms, the largest delay \<open>setTimeout\<close> keeps, the token expiry is the reading at
  minting plus the token duration and a refresh timer is pending that fires at the expiry
  minus the refresh buffer.
\<close>

theorem connect_arms_refresh_timer:
  assumes "fst (connect e st c) = Resolved ack"
    and "0 < now_expires e + tokenDuration (auth (config st)) * 1000 - now_schedule e
               - refreshBuffer (auth (config st)) * 1000"
    and "now_expires e + tokenDuration (auth (config st)) * 1000 - now_schedule e
           - refreshBuffer (auth (config st)) * 1000 \<le> 2147483647"
  shows "tokenExpiry (snd (connect e st c)) =
           Some (now_expires e + tokenDuration (auth (config st)) * 1000) \<and>
         (\<exists>t. tokenRefreshTimeout (snd (connect e st c)) = Some t \<and> pending t \<and>
              fires_at t = now_expires e + tokenDuration (auth (config st)) * 1000
                           - refreshBuffer (auth (config st)) * 1000)"
proof -
  from connect_success_timer[OF assms(1)] obtain st3 where
    run: "snd (connect e st c) = scheduleTokenRefresh (now_schedule e) st3" and
    cfg: "config st3 = config st" and
    exp: "tokenExpiry st3 = Some (now_expires e + tokenDuration (auth (config st)) * 1000)"
    by blast
  have pos: "0 < now_expires e + tokenDuration (auth (config st)) * 1000 - now_schedule e
                 - refreshBuffer (auth (config st3)) * 1000"
    using assms(2) cfg by simp
  have bound: "now_expires e + tokenDuration (auth (config st)) * 1000 - now_schedule e
                 - refreshBuffer (auth (config st3)) * 1000 \<le> 2147483647"
    using assms(3) cfg by simp
  have "tokenExpiry (snd (connect e st c)) =
          Some (now_expires e + tokenDuration (auth (config st)) * 1000)"
    using run exp scheduleTokenRefresh_fields[of "now_schedule e" st3] by simp
  moreover have "tokenRefreshTimeout (snd (connect e st c)) =
      Some \<lparr>armed_at = now_schedule e,
            delay = now_expires e + tokenDuration (auth (config st)) * 1000 - now_schedule e
                    - refreshBuffer (auth (config st)) * 1000,
            pending = True\<rparr>"
    using scheduleTokenRefresh_arms[OF exp pos bound] run cfg by simp
  ultimately show ?thesis by (simp add: fires_at_def)
qed

text \<open>
  The scenario of the claim: token duration 300 s, refresh buffer 60 s, every clock
  reading 0. The timer fires at 240000 ms.
\<close>

theorem connect_arms_refresh_timer_witness:
  "fst (connect healthy_env (new_client default_config) ''US'') = Resolved (JObj []) \<and>
   tokenExpiry (snd (connect healthy_env (new_client default_config) ''US'')) = Some 300000 \<and>
   (\<exists>t. tokenRefreshTimeout (snd (connect healthy_env (new_client default_config) ''US'')) = Some t \<and>
        pending t \<and> fires_at t = 240000)"
proof -
  have ok: "fst (connect healthy_env (new_client default_config) ''US'') = Resolved (JObj [])"
    by (rule healthy_connect_result) simp
  have pos: "0 < now_expires healthy_env
                 + tokenDuration (auth (config (new_client default_config))) * 1000
                 - now_schedule healthy_env
                 - refreshBuffer (auth (config (new_client default_config))) * 1000"
    by (simp add: healthy_env_def sample_env_def new_client_def default_config_def)
  have bound: "now_expires healthy_env
                 + tokenDuration (auth (config (new_client default_config))) * 1000
                 - now_schedule healthy_env
                 - refreshBuffer (auth (config (new_client default_config))) * 1000
               \<le> 2147483647"
    by (simp add: healthy_env_def sample_env_def new_client_def default_config_def)
  have vals: "now_expires healthy_env
                 + tokenDuration (auth (config (new_client default_config))) * 1000 = 300000"
       "refreshBuffer (auth (config (new_client default_config))) * 1000 = 60000"
    by (simp_all add: healthy_env_def sample_env_def new_client_def default_config_def)
  show ?thesis
    using connect_arms_refresh_timer[OF ok pos bound] ok by (simp add: vals)
qed

text \<open>
  Claim C9 as stated fails: with token duration and refresh buffer both 60 s, \<open>connect\<close>
  succeeds and no refresh timer is armed.
\<close>

theorem connect_arms_refresh_timer_counterexample:
  "fst (connect healthy_env (new_client equal_window_config) ''US'') = Resolved (JObj []) \<and>
   tokenRefreshTimeout (snd (connect healthy_env (new_client equal_window_config) ''US'')) = None"
proof -
  let ?st = "new_client equal_window_config"
  have ok: "fst (connect healthy_env ?st ''US'') = Resolved (JObj [])"
    by (rule healthy_connect_result) (simp add: equal_window_config_def)
  from connect_success_timer[OF ok] obtain st3 where
    run: "snd (connect healthy_env ?st ''US'') = scheduleTokenRefresh (now_schedule healthy_env) st3"
    and cfg: "config st3 = config ?st"
    and exp: "tokenExpiry st3 =
                Some (now_expires healthy_env + tokenDuration (auth (config ?st)) * 1000)"
    and timer3: "tokenRefreshTimeout st3 = tokenRefreshTimeout ?st"
    by blast
  have "(case tokenExpiry st3 of None \<Rightarrow> 0 | Some t \<Rightarrow> t) - now_schedule healthy_env
          - refreshBuffer (auth (config st3)) * 1000 \<le> 0"
    using exp cfg
    by (simp add: healthy_env_def sample_env_def new_client_def equal_window_config_def)
  from scheduleTokenRefresh_skips[OF this]
  have "tokenRefreshTimeout (snd (connect healthy_env ?st ''US'')) = None"
    using run timer3 by (simp add: new_client_def clearTimeout_def)
  with ok show ?thesis by simp
qed

text \<open>
  With tokens of 30 days the delay exceeds the limit of \<open>setTimeout\<close>, and the timer armed by
  a successful \<open>connect\<close> fires after 1 ms.
\<close>

lemma connect_beyond_timer_limit:
  "fst (connect healthy_env (new_client long_token_config) ''US'') = Resolved (JObj []) \<and>
   tokenRefreshTimeout (snd (connect healthy_env (new_client long_token_config) ''US'')) =
     Some \<lparr>armed_at = 0, delay = 1, pending = True\<rparr>"
proof -
  let ?st = "new_client long_token_config"
  have ok: "fst (connect healthy_env ?st ''US'') = Resolved (JObj [])"
    by (rule healthy_connect_result) (simp add: long_token_config_def)
  from connect_success_timer[OF ok] obtain st3 where
    run: "snd (connect healthy_env ?st ''US'') = scheduleTokenRefresh (now_schedule healthy_env) st3"
    and cfg: "config st3 = config ?st"
    and exp: "tokenExpiry st3 =
                Some (now_expires healthy_env + tokenDuration (auth (config ?st)) * 1000)"
    by blast
  have "2147483647 < now_expires healthy_env + tokenDuration (auth (config ?st)) * 1000
          - now_schedule healthy_env - refreshBuffer (auth (config st3)) * 1000"
    using cfg
    by (simp add: healthy_env_def sample_env_def new_client_def long_token_config_def)
  from scheduleTokenRefresh_beyond_limit[OF exp this]
  have "tokenRefreshTimeout (snd (connect healthy_env ?st ''US'')) =
          Some \<lparr>armed_at = 0, delay = 1, pending = True\<rparr>"
    using run by (simp add: healthy_env_def sample_env_def)
  with ok show ?thesis by simp
qed

text \<open>
  Claim C5, as the code has it. When the computed delay is zero or negative,
  \<open>scheduleTokenRefresh\<close> only clears the previous timer: it arms none and, having no
  failing path, raises nothing. This is the case whenever the refresh buffer is at least
  the token duration and the clock has not gone back since the token was minted.
\<close>

theorem scheduleTokenRefresh_skips_silently:
  "((case tokenExpiry st of None \<Rightarrow> 0 | Some t \<Rightarrow> t) - now
       - refreshBuffer (auth (config st)) * 1000 \<le> 0 \<longrightarrow>
      scheduleTokenRefresh now st =
        st\<lparr>tokenRefreshTimeout := clearTimeout (tokenRefreshTimeout st)\<rparr> \<and>
      \<not> timer_pending (scheduleTokenRefresh now st)) \<and>
   (tokenExpiry st = Some (minted + tokenDuration (auth (config st)) * 1000) \<and> minted \<le> now \<and>
    tokenDuration (auth (config st)) \<le> refreshBuffer (auth (config st)) \<longrightarrow>
      \<not> timer_pending (scheduleTokenRefresh now st))"
proof (intro conjI impI)
  assume le: "(case tokenExpiry st of None \<Rightarrow> 0 | Some t \<Rightarrow> t) - now
                - refreshBuffer (auth (config st)) * 1000 \<le> 0"
  show "scheduleTokenRefresh now st =
          st\<lparr>tokenRefreshTimeout := clearTimeout (tokenRefreshTimeout st)\<rparr>"
    using le by (rule scheduleTokenRefresh_skips)
  then show "\<not> timer_pending (scheduleTokenRefresh now st)"
    by (simp add: clearTimeout_not_pending)
next
  assume h: "tokenExpiry st = Some (minted + tokenDuration (auth (config st)) * 1000) \<and>
             minted \<le> now \<and>
             tokenDuration (auth (config st)) \<le> refreshBuffer (auth (config st))"
  then have "(case tokenExpiry st of None \<Rightarrow> 0 | Some t \<Rightarrow> t) - now
                - refreshBuffer (auth (config st)) * 1000 \<le> 0"
    by simp
  then have "scheduleTokenRefresh now st =
          st\<lparr>tokenRefreshTimeout := clearTimeout (tokenRefreshTimeout st)\<rparr>"
    by (rule scheduleTokenRefresh_skips)
  then show "\<not> timer_pending (scheduleTokenRefresh now st)"
    by (simp add: clearTimeout_not_pending)
qed

theorem scheduleTokenRefresh_skips_silently_witness:
  "(case tokenExpiry ((new_client short_token_config)\<lparr>tokenExpiry := Some 30000\<rparr>) of
      None \<Rightarrow> 0 | Some t \<Rightarrow> t) - 0
     - refreshBuffer (auth (config ((new_client short_token_config)\<lparr>tokenExpiry := Some 30000\<rparr>)))
       * 1000 \<le> 0 \<and>
   tokenExpiry ((new_client short_token_config)\<lparr>tokenExpiry := Some 30000\<rparr>) =
     Some (0 + tokenDuration
                 (auth (config ((new_client short_token_config)\<lparr>tokenExpiry := Some 30000\<rparr>)))
               * 1000) \<and>
   tokenDuration (auth (config ((new_client short_token_config)\<lparr>tokenExpiry := Some 30000\<rparr>)))
     \<le> refreshBuffer
         (auth (config ((new_client short_token_config)\<lparr>tokenExpiry := Some 30000\<rparr>))) \<and>
   scheduleTokenRefresh 0 ((new_client short_token_config)\<lparr>tokenExpiry := Some 30000\<rparr>) =
     (new_client short_token_config)\<lparr>tokenExpiry := Some 30000\<rparr> \<and>
   \<not> timer_pending
      (scheduleTokenRefresh 0 ((new_client short_token_config)\<lparr>tokenExpiry := Some 30000\<rparr>))"
proof -
  let ?st = "(new_client short_token_config)\<lparr>tokenExpiry := Some 30000\<rparr>"
  have le: "(case tokenExpiry ?st of None \<Rightarrow> 0 | Some t \<Rightarrow> t) - 0
              - refreshBuffer (auth (config ?st)) * 1000 \<le> 0"
    by (simp add: new_client_def short_token_config_def)
  have same: "?st\<lparr>tokenRefreshTimeout := clearTimeout (tokenRefreshTimeout ?st)\<rparr> = ?st"
    by (simp add: new_client_def clearTimeout_def)
  from scheduleTokenRefresh_skips_silently[of ?st 0 0] le
  have a: "scheduleTokenRefresh 0 ?st =
          ?st\<lparr>tokenRefreshTimeout := clearTimeout (tokenRefreshTimeout ?st)\<rparr>"
    and b: "\<not> timer_pending (scheduleTokenRefresh 0 ?st)"
    by blast+
  from a same have a': "scheduleTokenRefresh 0 ?st = ?st" by (rule trans)
  have window: "tokenExpiry ?st = Some (0 + tokenDuration (auth (config ?st)) * 1000)"
    "tokenDuration (auth (config ?st)) \<le> refreshBuffer (auth (config ?st))"
    by (simp_all add: new_client_def short_token_config_def)
  from le window a' b show ?thesis by (intro conjI)
qed

text \<open>
  Claim C5 as stated fails: with token duration 30 s and refresh buffer 60 s, \<open>connect\<close>
  returns the acknowledgement, no error is raised, and no refresh is pending.
\<close>

theorem scheduleTokenRefresh_skips_silently_counterexample:
  "fst (connect healthy_env (new_client short_token_config) ''US'') = Resolved (JObj []) \<and>
   \<not> timer_pending (snd (connect healthy_env (new_client short_token_config) ''US''))"
proof -
  let ?st = "new_client short_token_config"
  have ok: "fst (connect healthy_env ?st ''US'') = Resolved (JObj [])"
    by (rule healthy_connect_result) (simp add: short_token_config_def)
  from connect_success_timer[OF ok] obtain st3 where
    run: "snd (connect healthy_env ?st ''US'') = scheduleTokenRefresh (now_schedule healthy_env) st3"
    and cfg: "config st3 = config ?st"
    and exp: "tokenExpiry st3 =
                Some (now_expires healthy_env + tokenDuration (auth (config ?st)) * 1000)"
    by blast
  have "(case tokenExpiry st3 of None \<Rightarrow> 0 | Some t \<Rightarrow> t) - now_schedule healthy_env
          - refreshBuffer (auth (config st3)) * 1000 \<le> 0"
    using exp cfg
    by (simp add: healthy_env_def sample_env_def new_client_def short_token_config_def)
  from scheduleTokenRefresh_skips[OF this]
  have "\<not> timer_pending (snd (connect healthy_env ?st ''US''))"
    using run by (simp add: clearTimeout_not_pending)
  with ok show ?thesis by simp
qed

section \<open>Properties of the refresh callback\<close>

lemma refreshToken_fails_then:
  assumes "fst (refreshToken e st) = Inl err"
  shows "\<exists>s. currentSession st = Some s \<and> refreshToken e st = (Inl err, st)"
  using assms by (auto simp: refreshToken_def split: option.splits sum.splits)

text \<open>
  Claim C4, as the code has it. When the refresh started by the timer fails, the callback
  makes one call of \<open>connect\<close> for the country of the current session and ends in the state
  that call leaves. If that call fails too, its error leaves the callback uncaught, the
  client still has a current session, and no refresh timer is pending, so nothing is
  retried.
\<close>

theorem refresh_failure_reconnects_once:
  assumes "fst (refreshToken e1 (st\<lparr>tokenRefreshTimeout := clearTimeout (tokenRefreshTimeout st)\<rparr>))
             = Inl err"
  shows "\<exists>s. currentSession st = Some s \<and>
           snd (refresh_callback e1 e2 st) =
             snd (connect e2 (st\<lparr>tokenRefreshTimeout := clearTimeout (tokenRefreshTimeout st)\<rparr>)
                    (session_country s)) \<and>
           fst (refresh_callback e1 e2 st) =
             (case fst (connect e2
                          (st\<lparr>tokenRefreshTimeout := clearTimeout (tokenRefreshTimeout st)\<rparr>)
                          (session_country s)) of
                Rejected err2 \<Rightarrow> Rejected err2 | Resolved ack \<Rightarrow> Resolved ()
              | Pending \<Rightarrow> Pending) \<and>
           (\<forall>err2. fst (connect e2
                            (st\<lparr>tokenRefreshTimeout := clearTimeout (tokenRefreshTimeout st)\<rparr>)
                            (session_country s)) = Rejected err2 \<longrightarrow>
              fst (refresh_callback e1 e2 st) = Rejected err2 \<and>
              currentSession (snd (refresh_callback e1 e2 st)) \<noteq> None \<and>
              \<not> timer_pending (snd (refresh_callback e1 e2 st)))"
proof -
  let ?fired = "st\<lparr>tokenRefreshTimeout := clearTimeout (tokenRefreshTimeout st)\<rparr>"
  from refreshToken_fails_then[OF assms] obtain s where
    s: "currentSession ?fired = Some s" and r: "refreshToken e1 ?fired = (Inl err, ?fired)"
    by blast
  have cur: "currentSession st = Some s" using s by simp
  have cb: "refresh_callback e1 e2 st =
      (case connect e2 ?fired (session_country s) of
         (Rejected err2, st2) \<Rightarrow> (Rejected err2, st2)
       | (Resolved ack, st2) \<Rightarrow> (Resolved (), st2)
       | (Pending, st2) \<Rightarrow> (Pending, st2))"
    using s by (simp add: refresh_callback_def Let_def r)
  have snd_eq: "snd (refresh_callback e1 e2 st) = snd (connect e2 ?fired (session_country s))"
    by (simp add: cb split: prod.splits promise.splits)
  have fst_eq: "fst (refresh_callback e1 e2 st) =
      (case fst (connect e2 ?fired (session_country s)) of
         Rejected err2 \<Rightarrow> Rejected err2 | Resolved ack \<Rightarrow> Resolved ()
       | Pending \<Rightarrow> Pending)"
    by (simp add: cb split: prod.splits promise.splits)
  have fail: "\<forall>err2. fst (connect e2 ?fired (session_country s)) = Rejected err2 \<longrightarrow>
      fst (refresh_callback e1 e2 st) = Rejected err2 \<and>
      currentSession (snd (refresh_callback e1 e2 st)) \<noteq> None \<and>
      \<not> timer_pending (snd (refresh_callback e1 e2 st))"
  proof (intro allI impI)
    fix err2
    assume f: "fst (connect e2 ?fired (session_country s)) = Rejected err2"
    from connect_fails_then[OF f] s
    have t: "tokenRefreshTimeout (snd (connect e2 ?fired (session_country s))) =
               clearTimeout (tokenRefreshTimeout st)"
      and c: "currentSession (snd (connect e2 ?fired (session_country s))) \<noteq> None"
      by simp_all
    have "\<not> timer_pending (snd (connect e2 ?fired (session_country s)))"
      using t by (cases "tokenRefreshTimeout st") (simp_all add: timer_pending_def clearTimeout_def)
    then show "fst (refresh_callback e1 e2 st) = Rejected err2 \<and>
      currentSession (snd (refresh_callback e1 e2 st)) \<noteq> None \<and>
      \<not> timer_pending (snd (refresh_callback e1 e2 st))"
      using f c by (simp add: snd_eq fst_eq)
  qed
  from cur snd_eq fst_eq fail show ?thesis by blast
qed

lemma connected_client_fields:
  "\<exists>s. currentSession connected_client = Some s \<and> session_country s = ''US''"
  "config connected_client = default_config"
proof -
  have ok: "fst (connect healthy_env (new_client default_config) ''US'') = Resolved (JObj [])"
    by (rule healthy_connect_result) simp
  from connect_succeeds_then[OF ok] obtain w probes and info :: session_info where
    run: "snd (connect healthy_env (new_client default_config) ''US'') =
             scheduleTokenRefresh (now_schedule healthy_env)
               ((new_client default_config)\<lparr>sessionToken := Some (token info),
                    tokenExpiry := Some (expires (payload info)),
                    requests := requests (new_client default_config) @ probes @
                      [ConnectRequest (url w) (token info) (sessionId (payload info))],
                    currentSession :=
                      Some \<lparr>session_country = ''US'', worker = w,
                            session_id = sessionId (payload info),
                            connectedAt = now_connected healthy_env\<rparr>\<rparr>)"
    by blast
  show "\<exists>s. currentSession connected_client = Some s \<and> session_country s = ''US''"
    by (simp add: connected_client_def run scheduleTokenRefresh_fields)
  show "config connected_client = default_config"
  proof -
    have "config connected_client = config (new_client default_config)"
      by (simp add: connected_client_def run scheduleTokenRefresh_fields)
    then show ?thesis by (simp add: new_client_def)
  qed
qed

lemma sample_refresh_fails:
  "refreshToken no_entropy_env
     (connected_client\<lparr>tokenRefreshTimeout := clearTimeout (tokenRefreshTimeout connected_client)\<rparr>) =
   (Inl CryptoFailure,
    connected_client\<lparr>tokenRefreshTimeout := clearTimeout (tokenRefreshTimeout connected_client)\<rparr>)"
proof -
  from connected_client_fields(1) obtain s where "currentSession connected_client = Some s"
    by blast
  then show ?thesis
    by (simp add: refreshToken_def generateSessionToken_def no_entropy_env_def sample_env_def)
qed

lemma sample_reconnect_fails:
  "connect sample_env
     (connected_client\<lparr>tokenRefreshTimeout := clearTimeout (tokenRefreshTimeout connected_client)\<rparr>)
     ''US'' =
   (Rejected (NoHealthyWorkers ''US''),
    connected_client\<lparr>tokenRefreshTimeout := clearTimeout (tokenRefreshTimeout connected_client),
      requests := requests connected_client @
        [HealthRequest ''https://pseudovpn-us-east.hakzeemirror.workers.dev'',
         HealthRequest ''https://pseudovpn-us-backup.deno.dev'']\<rparr>)"
proof -
  let ?fired = "connected_client\<lparr>tokenRefreshTimeout :=
                  clearTimeout (tokenRefreshTimeout connected_client)\<rparr>"
  have sel: "getBestWorker (config ?fired) (JSON_parse sample_env) (probe sample_env) ''US'' =
      (Rejected (NoHealthyWorkers ''US''),
       [HealthRequest ''https://pseudovpn-us-east.hakzeemirror.workers.dev'',
        HealthRequest ''https://pseudovpn-us-backup.deno.dev''])"
    by (simp add: connected_client_fields(2) getBestWorker_def get_property_def
        default_config_def sample_env_def timed_out_def healthCheck_def Let_def)
  then have "fst (getBestWorker (config ?fired) (JSON_parse sample_env) (probe sample_env) ''US'') =
      Rejected (NoHealthyWorkers ''US'')"
    by simp
  from connect_selection_fails[OF this] sel show ?thesis by simp
qed

theorem refresh_failure_reconnects_once_witness:
  "fst (refreshToken no_entropy_env
          (connected_client\<lparr>tokenRefreshTimeout :=
             clearTimeout (tokenRefreshTimeout connected_client)\<rparr>)) = Inl CryptoFailure \<and>
   fst (refresh_callback no_entropy_env sample_env connected_client) =
     Rejected (NoHealthyWorkers ''US'') \<and>
   currentSession (snd (refresh_callback no_entropy_env sample_env connected_client)) \<noteq> None \<and>
   \<not> timer_pending (snd (refresh_callback no_entropy_env sample_env connected_client))"
proof -
  let ?fired = "connected_client\<lparr>tokenRefreshTimeout :=
                  clearTimeout (tokenRefreshTimeout connected_client)\<rparr>"
  have h: "fst (refreshToken no_entropy_env ?fired) = Inl CryptoFailure"
    by (simp add: sample_refresh_fails)
  from refresh_failure_reconnects_once[OF h, of sample_env] obtain s where
    s: "currentSession connected_client = Some s" and
    fail: "\<forall>err2. fst (connect sample_env ?fired (session_country s)) = Rejected err2 \<longrightarrow>
      fst (refresh_callback no_entropy_env sample_env connected_client) = Rejected err2 \<and>
      currentSession (snd (refresh_callback no_entropy_env sample_env connected_client)) \<noteq> None \<and>
      \<not> timer_pending (snd (refresh_callback no_entropy_env sample_env connected_client))"
    by blast
  have "session_country s = ''US''" using connected_client_fields(1) s by auto
  then have "fst (connect sample_env ?fired (session_country s)) =
      Rejected (NoHealthyWorkers ''US'')"
    by (simp add: sample_reconnect_fails)
  with fail h show ?thesis by blast
qed

text \<open>
  Claim C4 as stated fails: on a connected client the refresh fails, the reconnection
  fails as well, and afterwards the client still has the session it had; the error of the
  reconnection leaves the callback instead of a notification.
\<close>

theorem refresh_failure_reconnects_once_counterexample:
  "fst (refreshToken no_entropy_env
          (connected_client\<lparr>tokenRefreshTimeout :=
             clearTimeout (tokenRefreshTimeout connected_client)\<rparr>)) = Inl CryptoFailure \<and>
   fst (refresh_callback no_entropy_env sample_env connected_client) =
     Rejected (NoHealthyWorkers ''US'') \<and>
   currentSession (snd (refresh_callback no_entropy_env sample_env connected_client)) =
     currentSession connected_client \<and>
   sessionToken (snd (refresh_callback no_entropy_env sample_env connected_client)) =
     sessionToken connected_client \<and>
   currentSession connected_client \<noteq> None"
proof -
  from connected_client_fields(1) obtain s where
    s: "currentSession connected_client = Some s" and c: "session_country s = ''US''"
    by blast
  have "refresh_callback no_entropy_env sample_env connected_client =
      (Rejected (NoHealthyWorkers ''US''),
       connected_client\<lparr>tokenRefreshTimeout := clearTimeout (tokenRefreshTimeout connected_client),
         requests := requests connected_client @
           [HealthRequest ''https://pseudovpn-us-east.hakzeemirror.workers.dev'',
            HealthRequest ''https://pseudovpn-us-backup.deno.dev'']\<rparr>)"
    using s c
    by (simp add: refresh_callback_def Let_def sample_refresh_fails sample_reconnect_fails)
  then show ?thesis using s by (simp add: sample_refresh_fails)
qed

section \<open>Properties of the health probe\<close>

text \<open>
  Claim C8, as the code has it. When the timeout elapses first, the connection fails, or
  a response arrives whose body ends, \<open>healthCheck\<close> resolves to a result for the probed
  address: \<open>timeout\<close> with the timeout as latency; \<open>error\<close> with the elapsed time on a
  connection error; \<open>invalid\<close> whenever the body does not parse, whatever the status code;
  and, when the body parses, \<open>healthy\<close> on status 200 and \<open>error\<close> on any other status, with
  the elapsed time and the parsed body.
\<close>

theorem healthCheck_resolves:
  "healthCheck parse u t TimerFirst =
     Resolved \<lparr>url = u, status = Timeout, latency = t, data = None\<rparr> \<and>
   healthCheck parse u t (ConnectionError el) =
     Resolved \<lparr>url = u, status = Error, latency = el, data = None\<rparr> \<and>
   (parse bad = None \<longrightarrow>
      healthCheck parse u t (Response el code (Complete bad)) =
        Resolved \<lparr>url = u, status = Invalid, latency = el, data = None\<rparr>) \<and>
   (parse good = Some v \<longrightarrow>
      healthCheck parse u t (Response el code (Complete good)) =
        Resolved \<lparr>url = u, status = (if code = 200 then Healthy else Error),
                  latency = el, data = Some v\<rparr>) \<and>
   (answered outcome \<longrightarrow> (\<exists>r. healthCheck parse u t outcome = Resolved r \<and> url r = u))"
proof -
  have "answered outcome \<longrightarrow> (\<exists>r. healthCheck parse u t outcome = Resolved r \<and> url r = u)"
  proof
    assume a: "answered outcome"
    show "\<exists>r. healthCheck parse u t outcome = Resolved r \<and> url r = u"
    proof (cases outcome)
      case TimerFirst
      then show ?thesis by (simp add: healthCheck_def)
    next
      case (Response elapsed statusCode b)
      with a obtain bodytext where "b = Complete bodytext" by (cases b) auto
      with Response show ?thesis
        by (cases "parse bodytext") (simp_all add: healthCheck_def)
    next
      case (ConnectionError elapsed)
      then show ?thesis by (simp add: healthCheck_def)
    next
      case (RequestThrows msg)
      with a show ?thesis by simp
    qed
  qed
  then show ?thesis by (simp add: healthCheck_def)
qed

theorem healthCheck_resolves_witness:
  "parse_empty_object ''Bad Gateway'' = None \<and>
   healthCheck parse_empty_object ''w1'' 5000 (Response 12 502 (Complete ''Bad Gateway'')) =
     Resolved \<lparr>url = ''w1'', status = Invalid, latency = 12, data = None\<rparr> \<and>
   parse_empty_object ''{}'' = Some (JObj []) \<and>
   healthCheck parse_empty_object ''w1'' 5000 (Response 12 200 (Complete ''{}'')) =
     Resolved \<lparr>url = ''w1'', status = Healthy, latency = 12, data = Some (JObj [])\<rparr> \<and>
   answered TimerFirst \<and>
   healthCheck parse_empty_object ''w1'' 5000 TimerFirst =
     Resolved \<lparr>url = ''w1'', status = Timeout, latency = 5000, data = None\<rparr>"
proof -
  have bad: "parse_empty_object ''Bad Gateway'' = None"
    and good: "parse_empty_object ''{}'' = Some (JObj [])"
    by (simp_all add: parse_empty_object_def)
  from healthCheck_resolves[of parse_empty_object "''w1''" 5000 12 "''Bad Gateway''" 502
      "''{}''" "JObj []" TimerFirst] bad
  have r1: "healthCheck parse_empty_object ''w1'' 5000 (Response 12 502 (Complete ''Bad Gateway'')) =
     Resolved \<lparr>url = ''w1'', status = Invalid, latency = 12, data = None\<rparr>"
    by blast
  from healthCheck_resolves[of parse_empty_object "''w1''" 5000 12 "''Bad Gateway''" 200
      "''{}''" "JObj []" TimerFirst] good
  have r2: "healthCheck parse_empty_object ''w1'' 5000 (Response 12 200 (Complete ''{}'')) =
     Resolved \<lparr>url = ''w1'', status = Healthy, latency = 12, data = Some (JObj [])\<rparr>"
    by simp
  from healthCheck_resolves[of parse_empty_object "''w1''" 5000 12 "''Bad Gateway''" 200
      "''{}''" "JObj []" TimerFirst]
  have r3: "healthCheck parse_empty_object ''w1'' 5000 TimerFirst =
     Resolved \<lparr>url = ''w1'', status = Timeout, latency = 5000, data = None\<rparr>"
    by blast
  from bad good r1 r2 r3 show ?thesis by simp
qed

text \<open>
  The two outcomes on which no resolving callback runs: a response whose body never ends
  leaves the promise pending (the timer was cleared when the response arrived), and an
  exception of \<open>https.get\<close> in the executor rejects it.
\<close>

lemma healthCheck_unanswered:
  "healthCheck parse u t (Response el code NeverEnds) = Pending"
  "healthCheck parse u t (RequestThrows msg) = Rejected (RequestError msg)"
  by (simp_all add: healthCheck_def)

text \<open>
  Claim C8 as stated fails: a response with status 502 and a body that is not JSON gives
  the status \<open>invalid\<close>, not \<open>error\<close>.
\<close>

theorem healthCheck_resolves_counterexample:
  "healthCheck parse_empty_object ''w1'' 5000 (Response 12 502 (Complete ''Bad Gateway'')) =
     Resolved \<lparr>url = ''w1'', status = Invalid, latency = 12, data = None\<rparr> \<and>
   Invalid \<noteq> Error"
  by (simp add: healthCheck_def parse_empty_object_def)

section \<open>Properties of session tokens\<close>

text \<open>
  The token minted for the first default worker: three segments, and \<open>atob\<close> gives back the
  JSON text of the payload.
\<close>

lemma default_worker_token:
  "case generateSessionToken sample_env default_config ''US'' default_worker of
     Inl err \<Rightarrow> False
   | Inr info \<Rightarrow>
       payload info = sample_payload default_worker \<and>
       length (split_on CHR ''.'' (token info)) = 3 \<and>
       atob (split_on CHR ''.'' (token info) ! 1) = Some (stringify_payload (payload info))"
  by code_simp

text \<open>
  The token minted for the worker address with \<open>~\<close>: the payload segment contains \<open>-\<close>, which
  is outside the alphabet of \<open>atob\<close>.
\<close>

lemma tilde_worker_token:
  "case generateSessionToken sample_env default_config ''US'' tilde_worker of
     Inl err \<Rightarrow> False
   | Inr info \<Rightarrow>
       payload info = sample_payload tilde_worker \<and>
       length (split_on CHR ''.'' (token info)) = 3 \<and>
       CHR ''-'' \<in> set (split_on CHR ''.'' (token info) ! 1) \<and>
       atob (split_on CHR ''.'' (token info) ! 1) = None"
  by code_simp

lemma tilde_worker_token_text:
  "token_of (generateSessionToken sample_env default_config ''US'' tilde_worker) =
   ''eyJhbGciOiJIUzI1NiIsInR5cCI6IkpXVCJ9.eyJjb3VudHJ5IjoiVVMiLCJ3b3JrZXJJZCI6Imh0dHBzOi8vZWRnZS5leGFtcGxlLmNvbS9-dnBuIiwic2Vzc2lvbklkIjoiMTIzZTQ1NjctZTg5Yi0xMmQzLWE0NTYtNDI2NjE0MTc0MDAwIiwiaXNzdWVkIjowLCJleHBpcmVzIjozMDAwMDB9.AA''"
  by code_simp

lemma split_on_three_not_empty:
  "length (split_on CHR ''.'' tok) = 3 \<Longrightarrow> tok \<noteq> []"
  by (cases tok) auto

lemma default_token_of:
  "length (split_on CHR ''.''
      (token_of (generateSessionToken sample_env default_config ''US'' default_worker))) = 3"
  "atob (split_on CHR ''.''
      (token_of (generateSessionToken sample_env default_config ''US'' default_worker)) ! 1) =
   Some (stringify_payload (sample_payload default_worker))"
  using default_worker_token
  by (cases "generateSessionToken sample_env default_config ''US'' default_worker";
      simp add: token_of_def)+

lemma sample_payload_members:
  "json_of_payload (sample_payload wid) \<noteq> JNull"
  "get_member (json_of_payload (sample_payload wid)) ''expires'' = Some (JNum 300000)"
  "get_member (json_of_payload (sample_payload wid)) ''sessionId'' =
     Some (JStr ''123e4567-e89b-12d3-a456-426614174000'')"
  by (simp_all add: json_of_payload_def sample_payload_def)

text \<open>
  For the first default worker the round trip through the Deno worker's \<open>validateToken\<close>
  succeeds until the expiry and returns the payload that was minted.
\<close>

lemma generate_then_validate_default_worker:
  "validateToken (parse_only (sample_payload default_worker)) conv now
     (token_of (generateSessionToken sample_env default_config ''US'' default_worker))
     ''123e4567-e89b-12d3-a456-426614174000'' =
   (if now > 300000 then None else Some (json_of_payload (sample_payload default_worker)))"
  using split_on_three_not_empty[OF default_token_of(1)] default_token_of
  by (simp add: validateToken_def validateToken_with_def parse_only_def
      sample_payload_members js_gt_def)

text \<open>
  Claim C6 at the worker address \<open>https://edge.example.com/~vpn\<close>. The token is generated
  with the session identifier the random source gave and expiry 300000, and the Deno
  worker's \<open>validateToken\<close> rejects it for that very session identifier at every time and
  with every JSON parser: \<open>atob\<close> throws on the \<open>-\<close> in the Base64url payload segment.
\<close>

theorem generate_then_validate_rejects_tilde_worker:
  "\<exists>info. generateSessionToken sample_env default_config ''US'' tilde_worker = Inr info \<and>
     country (payload info) = ''US'' \<and>
     sessionId (payload info) = ''123e4567-e89b-12d3-a456-426614174000'' \<and>
     expires (payload info) = 300000 \<and>
     validateToken parse conv now (token info) (sessionId (payload info)) = None"
proof (cases "generateSessionToken sample_env default_config ''US'' tilde_worker")
  case (Inl err)
  with tilde_worker_token show ?thesis by simp
next
  case (Inr info)
  with tilde_worker_token have
    p: "payload info = sample_payload tilde_worker" and
    len: "length (split_on CHR ''.'' (token info)) = 3" and
    dec: "atob (split_on CHR ''.'' (token info) ! 1) = None"
    by simp_all
  have "validateToken parse conv now (token info) (sessionId (payload info)) = None"
    using len dec by (simp add: validateToken_def validateToken_with_def)
  with Inr p show ?thesis by (simp add: sample_payload_def)
qed

section \<open>Properties of token validation\<close>

text \<open>
  Claim C7, as the code has it. \<open>validateToken\<close> (of either worker, whatever the decoder)
  returns the decoded payload exactly when the token has three dot-separated segments,
  the payload segment decodes and parses to a value other than \<open>null\<close>, the time is not
  after \<open>payload.expires\<close> and \<open>payload.sessionId\<close> is the expected session identifier. In
  every other case it returns the one value \<open>false\<close>: when the structure is not three
  segments, when the payload is not decodable, when the token has expired, and when the
  session identifier differs; no kind of failure is told apart from another.
\<close>

theorem validateToken_accepts_iff:
  "(validateToken_with decode parse conv now tok sid = Some p \<longleftrightarrow>
      length (split_on CHR ''.'' tok) = 3 \<and>
      (\<exists>segment. decode (split_on CHR ''.'' tok ! 1) = Some segment \<and> parse segment = Some p) \<and>
      p \<noteq> JNull \<and> \<not> js_gt conv now (get_member p ''expires'') \<and>
      get_member p ''sessionId'' = Some (JStr sid)) \<and>
   (validateToken_with decode parse conv now tok sid = None \<longleftrightarrow>
      length (split_on CHR ''.'' tok) \<noteq> 3 \<or>
      decode (split_on CHR ''.'' tok ! 1) = None \<or>
      (\<exists>segment. decode (split_on CHR ''.'' tok ! 1) = Some segment \<and>
         (parse segment = None \<or>
          (\<exists>q. parse segment = Some q \<and>
             (q = JNull \<or> js_gt conv now (get_member q ''expires'') \<or>
              get_member q ''sessionId'' \<noteq> Some (JStr sid))))))"
proof (cases "length (split_on CHR ''.'' tok) = 3")
  case False
  then show ?thesis by (simp add: validateToken_with_def Let_def)
next
  case True
  note len = True
  have ne: "tok \<noteq> []" using len by (rule split_on_three_not_empty)
  show ?thesis
  proof (cases "decode (split_on CHR ''.'' tok ! 1)")
    case None
    then show ?thesis using len ne by (simp add: validateToken_with_def Let_def)
  next
    case (Some segment)
    note dec = Some
    show ?thesis
    proof (cases "parse segment")
      case None
      then show ?thesis using len ne dec by (simp add: validateToken_with_def Let_def)
    next
      case (Some q)
      then show ?thesis using len ne dec
        by (auto simp: validateToken_with_def Let_def)
    qed
  qed
qed

text \<open>
  The token minted for the first default worker: accepted at its expiry instant, rejected
  one millisecond later.
\<close>

theorem validateToken_accepts_iff_witness:
  "validateToken (parse_only (sample_payload default_worker)) nan_conversion 300000
     (token_of (generateSessionToken sample_env default_config ''US'' default_worker))
     ''123e4567-e89b-12d3-a456-426614174000'' =
   Some (json_of_payload (sample_payload default_worker)) \<and>
   validateToken (parse_only (sample_payload default_worker)) nan_conversion 300001
     (token_of (generateSessionToken sample_env default_config ''US'' default_worker))
     ''123e4567-e89b-12d3-a456-426614174000'' = None"
proof -
  let ?tok = "token_of (generateSessionToken sample_env default_config ''US'' default_worker)"
  let ?P = "parse_only (sample_payload default_worker)"
  let ?p = "json_of_payload (sample_payload default_worker)"
  let ?sid = "''123e4567-e89b-12d3-a456-426614174000''"
  have parsed: "?P (stringify_payload (sample_payload default_worker)) = Some ?p"
    by (simp add: parse_only_def)
  have fresh: "\<not> js_gt nan_conversion 300000 (get_member ?p ''expires'')"
    and stale: "js_gt nan_conversion 300001 (get_member ?p ''expires'')"
    by (simp_all add: sample_payload_members js_gt_def)
  have "validateToken_with atob ?P nan_conversion 300000 ?tok ?sid = Some ?p"
    using validateToken_accepts_iff[of atob ?P nan_conversion 300000 ?tok ?sid ?p]
      default_token_of parsed fresh sample_payload_members(1,3)[of default_worker]
    by blast
  moreover have "validateToken_with atob ?P nan_conversion 300001 ?tok ?sid = None"
    using validateToken_accepts_iff[of atob ?P nan_conversion 300001 ?tok ?sid ?p]
      default_token_of parsed stale
    by blast
  ultimately show ?thesis by (simp add: validateToken_def)
qed

text \<open>
  Claim C7 as stated fails: an expired token with three segments and a decodable payload
  gets the same result as a string that is no token at all, where the specification has
  \<open>Expired\<close> for the first and \<open>MalformedToken\<close> for the second.
\<close>

theorem validateToken_accepts_iff_counterexample:
  "validateToken (parse_only (sample_payload default_worker)) nan_conversion 300001
     (token_of (generateSessionToken sample_env default_config ''US'' default_worker))
     ''123e4567-e89b-12d3-a456-426614174000'' =
   validateToken (parse_only (sample_payload default_worker)) nan_conversion 300001
     ''not-a-token'' ''123e4567-e89b-12d3-a456-426614174000'' \<and>
   validate_spec atob (parse_only (sample_payload default_worker)) nan_conversion 300001
     (token_of (generateSessionToken sample_env default_config ''US'' default_worker))
     ''123e4567-e89b-12d3-a456-426614174000'' = Inl Expired \<and>
   validate_spec atob (parse_only (sample_payload default_worker)) nan_conversion 300001
     ''not-a-token'' ''123e4567-e89b-12d3-a456-426614174000'' = Inl MalformedToken"
proof -
  have a: "validateToken (parse_only (sample_payload default_worker)) nan_conversion 300001
     (token_of (generateSessionToken sample_env default_config ''US'' default_worker))
     ''123e4567-e89b-12d3-a456-426614174000'' = None"
    by (simp add: generate_then_validate_default_worker)
  have b: "validateToken (parse_only (sample_payload default_worker)) nan_conversion 300001
     ''not-a-token'' ''123e4567-e89b-12d3-a456-426614174000'' = None"
    by (simp add: validateToken_def validateToken_with_def)
  have c: "validate_spec atob (parse_only (sample_payload default_worker)) nan_conversion 300001
     (token_of (generateSessionToken sample_env default_config ''US'' default_worker))
     ''123e4567-e89b-12d3-a456-426614174000'' = Inl Expired"
    using default_token_of
    by (simp add: validate_spec_def parse_only_def sample_payload_members js_gt_def)
  have d: "validate_spec atob (parse_only (sample_payload default_worker)) nan_conversion 300001
     ''not-a-token'' ''123e4567-e89b-12d3-a456-426614174000'' = Inl MalformedToken"
    by (simp add: validate_spec_def)
  from a b c d show ?thesis by simp
qed

end
